theory Spec2Isabelle
  imports Main
begin

section \<open>JavaScript values and errors shared by the three scripts\<close>

text \<open>
  The three scripts (\<^verbatim>\<open>users.js\<close>, \<^verbatim>\<open>tags.js\<close>, \<^verbatim>\<open>properties.js\<close>) are ES modules
  that read documents from MongoDB and call a Convex backend. A thrown exception or a
  rejected promise is a value of \<open>js_error\<close>; a function that may throw returns
  \<open>js_error + 'a\<close> with \<open>Inl\<close> for the exception.
\<close>

datatype js_error = TypeError | ReferenceError | RangeError | AuthenticationFailed | Rejected

text \<open>
  What a lookup \<^verbatim>\<open>obj[key] || fallback\<close> in one of the mapping tables can evaluate to:
  \<^verbatim>\<open>null\<close>, a string, or a member that the object literal inherits from
  \<^verbatim>\<open>Object.prototype\<close> (a function, or the prototype object itself for
  \<^verbatim>\<open>__proto__\<close>). The mapping tables are plain object literals, so a key such as
  \<^verbatim>\<open>constructor\<close> finds the inherited member.
\<close>

datatype js_value = Null | Str string | Inherited string

definition object_prototype_keys :: "string list" where
  "object_prototype_keys =
     [''constructor'', ''__defineGetter__'', ''__defineSetter__'', ''hasOwnProperty'',
      ''__lookupGetter__'', ''__lookupSetter__'', ''isPrototypeOf'', ''propertyIsEnumerable'',
      ''toString'', ''valueOf'', ''__proto__'', ''toLocaleString'']"

text \<open>\<^verbatim>\<open>obj[key]\<close> on an object literal with string values; \<open>None\<close> is \<^verbatim>\<open>undefined\<close>.\<close>

definition object_get :: "(string \<times> string) list \<Rightarrow> string \<Rightarrow> js_value option" where
  "object_get obj key =
     (case map_of obj key of
        Some v \<Rightarrow> Some (Str v)
      | None \<Rightarrow> if key \<in> set object_prototype_keys then Some (Inherited key) else None)"

fun truthy :: "js_value \<Rightarrow> bool" where
  "truthy Null = False"
| "truthy (Str s) = (s \<noteq> [])"
| "truthy (Inherited k) = True"

text \<open>\<^verbatim>\<open>x || fallback\<close> for a looked-up \<open>x\<close>.\<close>

definition or_else :: "js_value option \<Rightarrow> js_value \<Rightarrow> js_value" where
  "or_else x fallback =
     (case x of None \<Rightarrow> fallback | Some v \<Rightarrow> if truthy v then v else fallback)"

text \<open>\<^verbatim>\<open>!oldId\<close> for an argument that is a string or \<^verbatim>\<open>undefined\<close>.\<close>

fun falsy_arg :: "string option \<Rightarrow> bool" where
  "falsy_arg None = True"
| "falsy_arg (Some s) = (s = [])"

section \<open>Identifier mapping\<close>

text \<open>The table \<^verbatim>\<open>orgIdMap\<close>, the same in \<^verbatim>\<open>users.js\<close> and \<^verbatim>\<open>tags.js\<close>.\<close>

definition orgIdMap :: "(string \<times> string) list" where
  "orgIdMap =
     [(''628bff8d44cd3e01b746b737'', ''nd73x7djt7ez0zmyp49n6t0x3h6ztghc''),
      (''628ea3ebfeec685660394d1c'', ''nd7dzk39r6hzmz012cvmgwgqvn70gdm0'')]"

text \<open>\<^verbatim>\<open>mapOrgId\<close> of \<^verbatim>\<open>users.js\<close> (lines 190-199).\<close>

definition mapOrgId_users :: "string option \<Rightarrow> js_value" where
  "mapOrgId_users oldId =
     (case oldId of
        None \<Rightarrow> Null
      | Some key \<Rightarrow> if falsy_arg oldId then Null else or_else (object_get orgIdMap key) Null)"

text \<open>
  \<^verbatim>\<open>mapOrgId\<close> of \<^verbatim>\<open>tags.js\<close> (lines 252-260): a falsy argument gets a fixed
  organization identifier instead of \<^verbatim>\<open>null\<close>.
\<close>

definition mapOrgId_tags :: "string option \<Rightarrow> js_value" where
  "mapOrgId_tags oldId =
     (case oldId of
        None \<Rightarrow> Str ''nd70p3ngxkh8n7chaddb81tjpx7166mr''
      | Some key \<Rightarrow>
          if falsy_arg oldId then Str ''nd70p3ngxkh8n7chaddb81tjpx7166mr''
          else or_else (object_get orgIdMap key) Null)"

text \<open>A value registered in the organization table.\<close>

definition registered_org :: "js_value \<Rightarrow> bool" where
  "registered_org v = (v \<in> Str ` snd ` set orgIdMap)"

section \<open>The user migration (\<^verbatim>\<open>users.js\<close>)\<close>

text \<open>
  The file holds the script twice (lines 50-202 and 222-354), statement for statement
  the same; line numbers below are those of the first copy. The connection to MongoDB,
  the count of the documents and the log output are left out: the model starts at the
  loop over the cursor, whose documents are a list.
\<close>

subsection \<open>Source documents and the transformed record\<close>

text \<open>
  \<^verbatim>\<open>String.prototype.toLowerCase\<close>, on the ASCII letters (a \<open>string\<close> is a list of
  bytes; the letters outside ASCII are left as they are).
\<close>

definition toLowerCase_char :: "char \<Rightarrow> char" where
  "toLowerCase_char c =
     (case map_of (zip ''ABCDEFGHIJKLMNOPQRSTUVWXYZ'' ''abcdefghijklmnopqrstuvwxyz'') c of
        None \<Rightarrow> c
      | Some lower \<Rightarrow> lower)"

definition toLowerCase :: "string \<Rightarrow> string" where
  "toLowerCase s = map toLowerCase_char s"

text \<open>
  A value of \<^verbatim>\<open>lastActive\<close>: a date with its ISO rendering, or an invalid date, on
  which \<^verbatim>\<open>toISOString\<close> throws a RangeError.
\<close>

datatype js_date = ValidDate string | InvalidDate

text \<open>
  A document of the \<^verbatim>\<open>users\<close> collection. MongoDB documents carry no schema, so every
  field but \<^verbatim>\<open>_id\<close> may be missing (\<open>None\<close> is \<^verbatim>\<open>undefined\<close>). Identifiers are
  given by their \<^verbatim>\<open>toString()\<close> rendering.
\<close>

record team_entry =
  teamId :: "string option"
  status :: "string option"

record mongo_user =
  old_id :: string
  old_email :: "string option"
  old_profileImg :: "string option"
  old_isOnBoarded :: "bool option"
  old_firstName :: "string option"
  old_lastName :: "string option"
  old_phone :: "string option"
  old_team :: "team_entry list option"
  old_teamActive :: "string option"
  old_lastActive :: "js_date option"

record org_membership =
  org_id :: js_value
  org_role :: string
  org_status :: string

record presence =
  lastSeen :: string
  presence_status :: string

record new_user =
  user_mongoId :: string
  email :: string
  emailVerified :: bool
  image :: "string option"
  isOnboardingComplete :: bool
  name :: string
  firstName :: "string option"
  lastName :: "string option"
  phone :: string
  orgIds :: "org_membership list"
  activeOrgId :: js_value
  presence :: presence
  providers :: "string list"

text \<open>A value interpolated into a template literal.\<close>

fun interpolate :: "string option \<Rightarrow> string" where
  "interpolate None = ''undefined''"
| "interpolate (Some s) = s"

text \<open>The callback of \<^verbatim>\<open>oldUser.team.map\<close> (lines 103-107).\<close>

definition membership :: "team_entry \<Rightarrow> js_error + org_membership" where
  "membership t =
     (case teamId t of
        None \<Rightarrow> Inl TypeError
      | Some tid \<Rightarrow>
          (case status t of
             None \<Rightarrow> Inl TypeError
           | Some st \<Rightarrow>
               Inr \<lparr>org_id = mapOrgId_users (Some tid),
                    org_role = ''org:member'',
                    org_status = (if toLowerCase st = ''approved'' then ''active'' else ''pending'')\<rparr>))"

fun memberships :: "team_entry list \<Rightarrow> js_error + org_membership list" where
  "memberships [] = Inr []"
| "memberships (t # ts) =
     (case membership t of
        Inl e \<Rightarrow> Inl e
      | Inr m \<Rightarrow> (case memberships ts of Inl e \<Rightarrow> Inl e | Inr ms \<Rightarrow> Inr (m # ms)))"

text \<open>
  \<^verbatim>\<open>presence.lastSeen\<close> (line 111); \<open>now\<close> is what \<^verbatim>\<open>new Date().toISOString()\<close> reads
  from the clock.
\<close>

fun lastSeen_of :: "string \<Rightarrow> js_date option \<Rightarrow> js_error + string" where
  "lastSeen_of now None = Inr now"
| "lastSeen_of now (Some (ValidDate rendered)) = Inr rendered"
| "lastSeen_of now (Some InvalidDate) = Inl RangeError"

text \<open>
  The object literal \<^verbatim>\<open>newUser\<close> (lines 91-115), its properties evaluated in order: the
  first missing field that is dereferenced throws.
\<close>

definition transform :: "string \<Rightarrow> mongo_user \<Rightarrow> js_error + new_user" where
  "transform now oldUser =
     (case old_email oldUser of
        None \<Rightarrow> Inl TypeError
      | Some e \<Rightarrow>
     (case old_team oldUser of
        None \<Rightarrow> Inl TypeError
      | Some ts \<Rightarrow>
     (case memberships ts of
        Inl err \<Rightarrow> Inl err
      | Inr ms \<Rightarrow>
     (case lastSeen_of now (old_lastActive oldUser) of
        Inl err \<Rightarrow> Inl err
      | Inr seen \<Rightarrow>
          Inr \<lparr>user_mongoId = old_id oldUser,
               email = toLowerCase e,
               emailVerified = True,
               image = old_profileImg oldUser,
               isOnboardingComplete = (case old_isOnBoarded oldUser of None \<Rightarrow> False | Some b \<Rightarrow> b),
               name = interpolate (old_firstName oldUser) @ '' '' @ interpolate (old_lastName oldUser),
               firstName = old_firstName oldUser,
               lastName = old_lastName oldUser,
               phone = (case old_phone oldUser of None \<Rightarrow> [] | Some p \<Rightarrow> p),
               orgIds = filter (\<lambda>org. org_id org \<noteq> Null) ms,
               activeOrgId = or_else (Some (mapOrgId_users (old_teamActive oldUser))) Null,
               presence = \<lparr>lastSeen = seen, presence_status = ''offline''\<rparr>,
               providers = [[]]\<rparr>))))"

text \<open>Lines 124-127: the first membership becomes the active organization.\<close>

definition default_activeOrgId :: "new_user \<Rightarrow> new_user" where
  "default_activeOrgId newUser =
     (case orgIds newUser of
        [] \<Rightarrow> newUser
      | org # _ \<Rightarrow>
          if \<not> truthy (activeOrgId newUser) then newUser\<lparr>activeOrgId := org_id org\<rparr>
          else newUser)"

subsection \<open>The backend and the run\<close>

text \<open>
  The Convex functions the script calls are not part of the repository: they are a
  parameter, a record of functions over any type \<open>'st\<close> of backend states. A query
  answers or rejects; a mutation rejects and leaves the state, or gives the next state.
\<close>

record stored_user =
  doc_id :: string
  doc :: new_user

record 'st users_backend =
  getUserByEmail :: "'st \<Rightarrow> string \<Rightarrow> js_error + stored_user option"
  users_create :: "'st \<Rightarrow> new_user \<Rightarrow> js_error + 'st"
  users_update :: "'st \<Rightarrow> string \<Rightarrow> new_user \<Rightarrow> js_error + 'st"

datatype user_mutation = Create new_user | Update string new_user

text \<open>
  The state of a run: the backend, the three counters the script declares (lines 82-84)
  and the mutation calls issued so far, oldest first.
\<close>

record 'st users_run =
  store :: 'st
  migratedCount :: nat
  errorCount :: nat
  skippedCount :: nat
  mutations :: "user_mutation list"

text \<open>
  \<^verbatim>\<open>updatedCount++\<close> (line 138): no declaration of \<^verbatim>\<open>updatedCount\<close> exists in the
  module, so evaluating it throws a ReferenceError.
\<close>

definition increment_updatedCount :: "js_error + unit" where
  "increment_updatedCount = Inl ReferenceError"

text \<open>The body of the \<^verbatim>\<open>try\<close> of lines 135-138: the next backend state, and what it threw.\<close>

definition update_try :: "'st users_backend \<Rightarrow> 'st \<Rightarrow> stored_user \<Rightarrow> new_user \<Rightarrow> 'st \<times> js_error option" where
  "update_try B st existingUser newUser =
     (case users_update B st (doc_id existingUser) newUser of
        Inl e \<Rightarrow> (st, Some e)
      | Inr st' \<Rightarrow>
          (case increment_updatedCount of
             Inl e \<Rightarrow> (st', Some e)
           | Inr _ \<Rightarrow> (st', None)))"

text \<open>
  One iteration of the \<^verbatim>\<open>while\<close> loop (lines 88-153). \<open>Inl\<close> is an exception that
  leaves the loop: the transformation and the query are not inside a \<^verbatim>\<open>try\<close> of the
  loop body.
\<close>

definition process_user :: "'st users_backend \<Rightarrow> string \<Rightarrow> mongo_user \<Rightarrow> 'st users_run \<Rightarrow> js_error + 'st users_run" where
  "process_user B now oldUser s =
     (case transform now oldUser of
        Inl e \<Rightarrow> Inl e
      | Inr transformed \<Rightarrow>
          if length (orgIds transformed) = 0
          then Inr (s\<lparr>skippedCount := skippedCount s + 1\<rparr>)
          else
            (let newUser = default_activeOrgId transformed in
             case getUserByEmail B (store s) (email newUser) of
               Inl e \<Rightarrow> Inl e
             | Inr (Some existingUser) \<Rightarrow>
                 (case update_try B (store s) existingUser newUser of
                    (st', Some e) \<Rightarrow>
                      Inr (s\<lparr>store := st',
                             mutations := mutations s @ [Update (doc_id existingUser) newUser],
                             errorCount := errorCount s + 1\<rparr>)
                  | (st', None) \<Rightarrow>
                      Inr (s\<lparr>store := st',
                             mutations := mutations s @ [Update (doc_id existingUser) newUser]\<rparr>))
             | Inr None \<Rightarrow>
                 (case users_create B (store s) newUser of
                    Inl e \<Rightarrow>
                      Inr (s\<lparr>mutations := mutations s @ [Create newUser],
                             errorCount := errorCount s + 1\<rparr>)
                  | Inr st' \<Rightarrow>
                      Inr (s\<lparr>store := st',
                             mutations := mutations s @ [Create newUser],
                             migratedCount := migratedCount s + 1\<rparr>))))"

text \<open>
  The loop over the cursor. \<open>clock i\<close> is the clock reading while the \<open>i\<close>-th document
  is transformed. The result holds the exception that reached the outer \<^verbatim>\<open>catch\<close> of
  line 158, if any; the documents after it are not read.
\<close>

fun migrate_loop :: "'st users_backend \<Rightarrow> (nat \<Rightarrow> string) \<Rightarrow> nat \<Rightarrow> mongo_user list \<Rightarrow> 'st users_run \<Rightarrow> 'st users_run \<times> js_error option" where
  "migrate_loop B clock i [] s = (s, None)"
| "migrate_loop B clock i (oldUser # rest) s =
     (case process_user B (clock i) oldUser s of
        Inl e \<Rightarrow> (s, Some e)
      | Inr s' \<Rightarrow> migrate_loop B clock (Suc i) rest s')"

definition users_start :: "'st \<Rightarrow> 'st users_run" where
  "users_start st =
     \<lparr>store = st, migratedCount = 0, errorCount = 0, skippedCount = 0, mutations = []\<rparr>"

definition migrateUsers :: "'st users_backend \<Rightarrow> (nat \<Rightarrow> string) \<Rightarrow> mongo_user list \<Rightarrow> 'st \<Rightarrow> 'st users_run \<times> js_error option" where
  "migrateUsers B clock users st = migrate_loop B clock 0 users (users_start st)"

text \<open>
  The summary of line 157, printed when the loop ended without an exception: the numbers
  it interpolates, in order (migrated, skipped, errors).
\<close>

definition summary :: "'st users_run \<times> js_error option \<Rightarrow> (nat \<times> nat \<times> nat) option" where
  "summary r =
     (case snd r of
        Some e \<Rightarrow> None
      | None \<Rightarrow> Some (migratedCount (fst r), skippedCount (fst r), errorCount (fst r)))"

subsection \<open>An in-memory backend for users\<close>

text \<open>
  Modelled from the spec: the Convex functions \<^verbatim>\<open>users:getUserByEmail\<close>,
  \<^verbatim>\<open>users:create\<close> and \<^verbatim>\<open>users:update\<close> (the target store of sections 4.4, 4.5 and
  6 of the specification) are not among the sources. The model is
  a table of stored users: \<^verbatim>\<open>users:getUserByEmail\<close> finds the first document with the
  email, \<^verbatim>\<open>users:create\<close> appends a document under a fresh identifier,
  \<^verbatim>\<open>users:update\<close> replaces the fields of the document with the identifier.
\<close>

definition fresh_id :: "string list \<Rightarrow> string" where
  "fresh_id ids = CHR ''k'' # concat ids"

definition user_table :: "stored_user list users_backend" where
  "user_table =
     \<lparr>getUserByEmail = (\<lambda>st e. Inr (find (\<lambda>d. email (doc d) = e) st)),
      users_create = (\<lambda>st newUser. Inr (st @ [\<lparr>doc_id = fresh_id (map doc_id st), doc = newUser\<rparr>])),
      users_update = (\<lambda>st i newUser. Inr (map (\<lambda>d. if doc_id d = i then d\<lparr>doc := newUser\<rparr> else d) st))\<rparr>"

section \<open>The tag migration (\<^verbatim>\<open>tags.js\<close>)\<close>

subsection \<open>Source documents, the user table, the created tag\<close>

text \<open>Documents of the collections \<^verbatim>\<open>tagdatas\<close> and \<^verbatim>\<open>tagrefs\<close>.\<close>

record tag_data =
  tag_oid :: string
  team :: "string option"
  tag :: "string option"
  userId :: "string option"

record tag_ref =
  tagObject :: "string option"
  ref_type :: "string option"
  refWith :: "string option"

definition userIdMap :: "(string \<times> string) list" where
  "userIdMap =
     [(''628c069244cd3e01b746bb27'', ''jx7fccjdbh0tkk4d8sm5gkk55572ckx7''),
      (''628c068a44cd3e01b746bb1b'', ''jx72n00r91av5bhvac1y1vj0ss72d194''),
      (''632245717e8b30f96324399b'', ''jx7ehz07gwg8tgz2a085n3t75172cncs''),
      (''60e1f01a93969009be99b46d'', ''jx71hh2kfx7j6v7504envzx1yn72dpk0''),
      (''628c06f044cd3e01b746bb9e'', ''jx72pj9eav4g6wxec8wvc1txjd72d1p3''),
      (''628c06a644cd3e01b746bb63'', ''jx7c59n0knmjg8n8yn62pyvh2s72dhsc''),
      (''628c06b744cd3e01b746bb7a'', ''jx72yacpvkhc779st99xp6sfnx72d5x8''),
      (''6334d9efe649ad2f1edecbae'', ''jx79wfbcyaaqnvcejqmdqpya8x72cr0k''),
      (''66020ef2ad9f7a60cfd5de5e'', ''jx7ax8tdwcp3rd461a8rmn0tz172d1wh''),
      (''6322457f7e8b30f9632439a7'', ''jx7864z64kzcm2p1xfj3wkk83172csvw''),
      (''665fbbd06451bf23d3eab6c1'', ''jx7f7y699zrhyn46aa8dr6ym9572cf20''),
      (''632245667e8b30f963244398f'', ''jx743dfq80jftth0bfdb1e6gq172cnnw''),
      (''63225d8c7e8b30f963244450'', ''jx7d8ft0whj3zcjxqpqd05jdqs72d7mq''),
      (''66045830ad9f7a60cfd74077'', ''jx7amjhxaqxnc55fs7mh4x73gh72d4qz''),
      (''61382e137d8edd0023c1539d'', ''jx77anct8xft6ej3q3tetcbkp172cw5z''),
      (''636025626b13702974981ad4'', ''jx7a5hmy7w66fpkjd4ew8a90rx72ddzf''),
      (''65fb6089ad9f7a60cfd48b7f'', ''jx73e8tf5hp6wvxvew0wks9rth72cs4p''),
      (''628c06c344cd3e01b746bb86'', ''jx7drgj8n8kx18egwwwkje8v9x72dkdf''),
      (''6363f4a55acbe1bf42c33415'', ''jx73wsrz21fdttqfc6wxptyd1h72dygk'')]"

text \<open>\<^verbatim>\<open>mapUserId\<close> (lines 262-288).\<close>

definition mapUserId :: "string option \<Rightarrow> js_value" where
  "mapUserId oldId =
     (case oldId of
        None \<Rightarrow> Null
      | Some key \<Rightarrow>
          if falsy_arg oldId then Null
          else or_else (object_get userIdMap key) (Str ''jx7af8p9kcxg2hy7b4zgzez5056ztvpv''))"

record new_tag =
  tag_orgId :: js_value
  tag_name :: "string option"
  tag_recordType :: string
  tag_userIds :: "(js_value \<times> string) list"
  tag_mongoId :: string

text \<open>
  \<^verbatim>\<open>find(filter)\<close> and \<^verbatim>\<open>find(refFilter)\<close> (lines 115-132): the tags of the two teams,
  and the references of type \<^verbatim>\<open>property\<close>.
\<close>

definition find_tagDatas :: "tag_data list \<Rightarrow> tag_data list" where
  "find_tagDatas collection =
     filter (\<lambda>d. team d \<in> set [Some ''628bff8d44cd3e01b746b737'', Some ''628ea3ebfeec685660394d1c''])
       collection"

definition find_tagRefs :: "tag_ref list \<Rightarrow> tag_ref list" where
  "find_tagRefs collection = filter (\<lambda>r. ref_type r \<in> set [Some ''property'']) collection"

text \<open>
  The callback of \<^verbatim>\<open>tagRefs.reduce\<close> (lines 137-144). The accumulator is a plain
  object literal: under the name of an inherited member \<^verbatim>\<open>acc[tagId]\<close> is that member,
  which has no \<^verbatim>\<open>push\<close>.
\<close>

definition group_ref :: "(string \<rightharpoonup> tag_ref list) \<Rightarrow> tag_ref \<Rightarrow> js_error + (string \<rightharpoonup> tag_ref list)" where
  "group_ref acc tagRef =
     (case tagObject tagRef of
        None \<Rightarrow> Inl TypeError
      | Some tagId \<Rightarrow>
          (case acc tagId of
             Some refs \<Rightarrow> Inr (acc(tagId \<mapsto> refs @ [tagRef]))
           | None \<Rightarrow>
               if tagId \<in> set object_prototype_keys then Inl TypeError
               else Inr (acc(tagId \<mapsto> [tagRef]))))"

fun build_tagRefMap :: "(string \<rightharpoonup> tag_ref list) \<Rightarrow> tag_ref list \<Rightarrow> js_error + (string \<rightharpoonup> tag_ref list)" where
  "build_tagRefMap acc [] = Inr acc"
| "build_tagRefMap acc (tagRef # rest) =
     (case group_ref acc tagRef of
        Inl e \<Rightarrow> Inl e
      | Inr acc' \<Rightarrow> build_tagRefMap acc' rest)"

text \<open>
  \<^verbatim>\<open>tagRefMap[mongoId] || []\<close> (lines 169 and 203) together with the first use of the
  result as an array, which throws when the lookup found an inherited member.
\<close>

definition references_of :: "(string \<rightharpoonup> tag_ref list) \<Rightarrow> string \<Rightarrow> js_error + tag_ref list" where
  "references_of tagRefMap mongoId =
     (case tagRefMap mongoId of
        Some refs \<Rightarrow> Inr refs
      | None \<Rightarrow> if mongoId \<in> set object_prototype_keys then Inl TypeError else Inr [])"

text \<open>
  Lines 170-176: the locals \<^verbatim>\<open>hasContacts\<close>, \<^verbatim>\<open>hasProperties\<close> and \<^verbatim>\<open>recordType\<close>
  (\<open>None\<close> is \<^verbatim>\<open>undefined\<close>: neither assignment ran).
\<close>

definition hasContacts :: "tag_ref list \<Rightarrow> bool" where
  "hasContacts references = list_ex (\<lambda>r. ref_type r = Some ''contact'') references"

definition hasProperties :: "tag_ref list \<Rightarrow> bool" where
  "hasProperties references = list_ex (\<lambda>r. ref_type r = Some ''property'') references"

definition recordType_local :: "tag_ref list \<Rightarrow> string option" where
  "recordType_local references =
     (let recordType = None;
          recordType = (if hasContacts references \<and> \<not> hasProperties references
                        then Some ''contacts'' else recordType);
          recordType = (if \<not> hasContacts references \<and> hasProperties references
                        then Some ''properties'' else recordType)
      in recordType)"

text \<open>
  The object literal \<^verbatim>\<open>newTagData\<close> (lines 179-188): \<^verbatim>\<open>recordType\<close> is the string
  literal \<^verbatim>\<open>"properties"\<close>, not the local of line 174.
\<close>

definition newTagData :: "js_value \<Rightarrow> tag_data \<Rightarrow> string \<Rightarrow> js_error + new_tag" where
  "newTagData orgId tagData mongoId =
     (case userId tagData of
        None \<Rightarrow> Inl TypeError
      | Some uid \<Rightarrow>
          Inr \<lparr>tag_orgId = orgId,
               tag_name = tag tagData,
               tag_recordType = ''properties'',
               tag_userIds = [(mapUserId (Some uid), ''tag:admin'')],
               tag_mongoId = mongoId\<rparr>)"

subsection \<open>The backend and the run\<close>

text \<open>
  The Convex functions of the tag migration, again a parameter. A tag document as the
  queries answer it: its \<^verbatim>\<open>_id\<close>, and the fields \<^verbatim>\<open>id\<close> and \<^verbatim>\<open>name\<close> the script
  reads. \<^verbatim>\<open>properties:getByMongoId\<close> answers the \<^verbatim>\<open>_id\<close> of the property, \<open>None\<close>
  for \<^verbatim>\<open>null\<close>.
\<close>

record stored_tag =
  tag_doc_id :: string
  tag_id_field :: "string option"
  tag_doc_name :: "string option"

record create_result =
  result_status :: string
  result_data :: string

record 'st tags_backend =
  viewer :: "'st \<Rightarrow> js_error + bool"
  tags_getAll :: "'st \<Rightarrow> js_error + stored_tag list"
  createTagFromMongo :: "'st \<Rightarrow> new_tag \<Rightarrow> js_error + ('st \<times> create_result)"
  getByMongoId :: "'st \<Rightarrow> string \<Rightarrow> js_error + string option"
  getTagsForRecord :: "'st \<Rightarrow> string \<Rightarrow> js_error + stored_tag list"
  addTagToRecord :: "'st \<Rightarrow> string \<Rightarrow> string \<Rightarrow> js_error + 'st"

text \<open>
  The calls of the loop, in the order they are issued. A \<^verbatim>\<open>tags:getTagsForRecord\<close>
  carries the \<^verbatim>\<open>_id\<close>s it was answered with (\<open>None\<close>: it rejected).
\<close>

datatype tag_call =
    CreateTag new_tag
  | GetByMongoId string
  | GetTagsForRecord string "string list option"
  | AddTagToRecord string string

record 'st tags_run =
  backend :: 'st
  createdTags :: "(string \<times> string) list"
  calls :: "tag_call list"

text \<open>\<^verbatim>\<open>Map.prototype.set\<close>: a known key keeps its place, a new key goes last.\<close>

fun map_set :: "string \<Rightarrow> string \<Rightarrow> (string \<times> string) list \<Rightarrow> (string \<times> string) list" where
  "map_set k v [] = [(k, v)]"
| "map_set k v ((k', v') # rest) =
     (if k' = k then (k, v) # rest else (k', v') # map_set k v rest)"

text \<open>Lines 190-199: the creation, inside its own \<^verbatim>\<open>try\<close>.\<close>

definition create_try :: "'st tags_backend \<Rightarrow> new_tag \<Rightarrow> string \<Rightarrow> 'st tags_run \<Rightarrow> 'st tags_run" where
  "create_try B tagFields mongoId s =
     (let issued = s\<lparr>calls := calls s @ [CreateTag tagFields]\<rparr> in
      case createTagFromMongo B (backend s) tagFields of
        Inl e \<Rightarrow> issued
      | Inr (st', result) \<Rightarrow>
          if result_status result = ''success''
          then issued\<lparr>backend := st',
                      createdTags := map_set mongoId (result_data result) (createdTags issued)\<rparr>
          else issued\<lparr>backend := st'\<rparr>)"

text \<open>
  Lines 206-234: one reference of one created tag. The second component is an
  exception that leaves the inner \<^verbatim>\<open>try\<close>: the handler of line 233 evaluates
  \<^verbatim>\<open>ref.refWith.toString()\<close> again, so a reference without \<^verbatim>\<open>refWith\<close> throws out of
  the handler. Every other exception is caught and logged there.
\<close>

definition link_ref :: "'st tags_backend \<Rightarrow> string \<Rightarrow> tag_ref \<Rightarrow> 'st tags_run \<Rightarrow> 'st tags_run \<times> js_error option" where
  "link_ref B convexTagId ref s =
     (case refWith ref of
        None \<Rightarrow> (s, Some TypeError)
      | Some target \<Rightarrow>
          (let s1 = s\<lparr>calls := calls s @ [GetByMongoId target]\<rparr> in
           case getByMongoId B (backend s) target of
             Inl e \<Rightarrow> (s1, None)
           | Inr None \<Rightarrow> (s1, None)
           | Inr (Some recordId) \<Rightarrow>
               (case getTagsForRecord B (backend s) recordId of
                  Inl e \<Rightarrow> (s1\<lparr>calls := calls s1 @ [GetTagsForRecord recordId None]\<rparr>, None)
                | Inr existingTags \<Rightarrow>
                    (let s2 = s1\<lparr>calls := calls s1 @
                                 [GetTagsForRecord recordId (Some (map tag_doc_id existingTags))]\<rparr> in
                     if \<not> list_ex (\<lambda>t. tag_doc_id t = convexTagId) existingTags
                     then
                       (let s3 = s2\<lparr>calls := calls s2 @ [AddTagToRecord recordId convexTagId]\<rparr> in
                        case addTagToRecord B (backend s) recordId convexTagId of
                          Inl e \<Rightarrow> (s3, None)
                        | Inr st' \<Rightarrow> (s3\<lparr>backend := st'\<rparr>, None))
                     else (s2, None)))))"

fun link_refs :: "'st tags_backend \<Rightarrow> string \<Rightarrow> tag_ref list \<Rightarrow> 'st tags_run \<Rightarrow> 'st tags_run \<times> js_error option" where
  "link_refs B convexTagId [] s = (s, None)"
| "link_refs B convexTagId (ref # rest) s =
     (case link_ref B convexTagId ref s of
        (s', Some e) \<Rightarrow> (s', Some e)
      | (s', None) \<Rightarrow> link_refs B convexTagId rest s')"

text \<open>Lines 202-236: the loop over the entries of \<^verbatim>\<open>createdTags\<close>.\<close>

fun link_created :: "'st tags_backend \<Rightarrow> (string \<rightharpoonup> tag_ref list) \<Rightarrow> (string \<times> string) list \<Rightarrow> 'st tags_run \<Rightarrow> 'st tags_run \<times> js_error option" where
  "link_created B tagRefMap [] s = (s, None)"
| "link_created B tagRefMap ((mongoId, convexTagId) # rest) s =
     (case references_of tagRefMap mongoId of
        Inl e \<Rightarrow> (s, Some e)
      | Inr references \<Rightarrow>
          (case link_refs B convexTagId references s of
             (s', Some e) \<Rightarrow> (s', Some e)
           | (s', None) \<Rightarrow> link_created B tagRefMap rest s'))"

text \<open>
  Lines 158-240: the body of the loop over \<^verbatim>\<open>tagDatas\<close>. Whatever is thrown inside is
  caught at line 238 and logged, and the loop goes on with the next tag; the script
  keeps no counter. The loop over \<^verbatim>\<open>createdTags\<close> stands inside this body.
\<close>

definition process_tag :: "'st tags_backend \<Rightarrow> (string \<rightharpoonup> tag_ref list) \<Rightarrow> string option list \<Rightarrow> string option list \<Rightarrow> tag_data \<Rightarrow> 'st tags_run \<Rightarrow> 'st tags_run" where
  "process_tag B tagRefMap existingTagIds existingTagNames tagData s =
     (let mongoId = tag_oid tagData in
      case team tagData of
        None \<Rightarrow> s
      | Some teamOid \<Rightarrow>
          (let orgId = mapOrgId_tags (Some teamOid) in
           if Some mongoId \<in> set existingTagIds \<or> tag tagData \<in> set existingTagNames then s
           else
             (case references_of tagRefMap mongoId of
                Inl e \<Rightarrow> s
              | Inr references \<Rightarrow>
                  (let recordType = recordType_local references in
                   case newTagData orgId tagData mongoId of
                     Inl e \<Rightarrow> s
                   | Inr tagFields \<Rightarrow>
                       (let s1 = create_try B tagFields mongoId s in
                        fst (link_created B tagRefMap (createdTags s1) s1))))))"

fun tags_loop :: "'st tags_backend \<Rightarrow> (string \<rightharpoonup> tag_ref list) \<Rightarrow> string option list \<Rightarrow> string option list \<Rightarrow> tag_data list \<Rightarrow> 'st tags_run \<Rightarrow> 'st tags_run" where
  "tags_loop B tagRefMap existingTagIds existingTagNames [] s = s"
| "tags_loop B tagRefMap existingTagIds existingTagNames (tagData # rest) s =
     tags_loop B tagRefMap existingTagIds existingTagNames rest
       (process_tag B tagRefMap existingTagIds existingTagNames tagData s)"

text \<open>
  \<^verbatim>\<open>updateTags\<close> (lines 92-250), from the authentication on; the arguments are the two
  collections and the state of the backend. The second component is the exception that
  reached the outer \<^verbatim>\<open>catch\<close> of line 245.
\<close>

definition tags_start :: "'st \<Rightarrow> 'st tags_run" where
  "tags_start st = \<lparr>backend = st, createdTags = [], calls = []\<rparr>"

definition updateTags :: "'st tags_backend \<Rightarrow> tag_data list \<Rightarrow> tag_ref list \<Rightarrow> 'st \<Rightarrow> 'st tags_run \<times> js_error option" where
  "updateTags B tagdatas tagrefs st =
     (let start = tags_start st in
      case viewer B st of
        Inl e \<Rightarrow> (start, Some e)
      | Inr False \<Rightarrow> (start, Some AuthenticationFailed)
      | Inr True \<Rightarrow>
          (let tagDatas = find_tagDatas tagdatas;
               tagRefs = find_tagRefs tagrefs in
           case build_tagRefMap Map.empty tagRefs of
             Inl e \<Rightarrow> (start, Some e)
           | Inr tagRefMap \<Rightarrow>
               (case tags_getAll B st of
                  Inl e \<Rightarrow> (start, Some e)
                | Inr existingTags \<Rightarrow>
                    (tags_loop B tagRefMap (map tag_id_field existingTags)
                       (map tag_doc_name existingTags) tagDatas start, None))))"

subsection \<open>An in-memory backend for tags\<close>

text \<open>
  Modelled from the spec: the Convex functions \<^verbatim>\<open>tags:getAll\<close>,
  \<^verbatim>\<open>tags:createTagFromMongo\<close>, \<^verbatim>\<open>properties:getByMongoId\<close>,
  \<^verbatim>\<open>tags:getTagsForRecord\<close> and \<^verbatim>\<open>tags:addTagToRecord\<close> (the target store of sections
  4.6 and 6 of the specification) are not among the sources. The model holds the tag
  documents, the properties by their \<^verbatim>\<open>mongoId\<close>, and the links between records and
  tags, one entry per \<^verbatim>\<open>tags:addTagToRecord\<close> that went through.
\<close>

record tag_doc =
  tag_doc_key :: string
  tag_doc_fields :: new_tag

record memory =
  mem_tags :: "tag_doc list"
  mem_properties :: "(string \<times> string) list"
  mem_links :: "(string \<times> string) list"

definition tag_view :: "tag_doc list \<Rightarrow> string \<Rightarrow> stored_tag" where
  "tag_view docs key =
     \<lparr>tag_doc_id = key,
      tag_id_field = None,
      tag_doc_name = (case find (\<lambda>d. tag_doc_key d = key) docs of
                        None \<Rightarrow> None
                      | Some d \<Rightarrow> tag_name (tag_doc_fields d))\<rparr>"

definition memory_backend :: "memory tags_backend" where
  "memory_backend =
     \<lparr>viewer = (\<lambda>st. Inr True),
      tags_getAll = (\<lambda>st. Inr (map (\<lambda>d. \<lparr>tag_doc_id = tag_doc_key d, tag_id_field = None,
                                        tag_doc_name = tag_name (tag_doc_fields d)\<rparr>) (mem_tags st))),
      createTagFromMongo = (\<lambda>st tagFields.
        (let key = fresh_id (map tag_doc_key (mem_tags st)) in
         Inr (st\<lparr>mem_tags := mem_tags st @ [\<lparr>tag_doc_key = key, tag_doc_fields = tagFields\<rparr>]\<rparr>,
              \<lparr>result_status = ''success'', result_data = key\<rparr>))),
      getByMongoId = (\<lambda>st m. Inr (map_of (mem_properties st) m)),
      getTagsForRecord = (\<lambda>st recordId.
        Inr (map (\<lambda>l. tag_view (mem_tags st) (snd l)) (filter (\<lambda>l. fst l = recordId) (mem_links st)))),
      addTagToRecord = (\<lambda>st recordId tagId. Inr (st\<lparr>mem_links := mem_links st @ [(recordId, tagId)]\<rparr>))\<rparr>"

section \<open>The paginated fetch (\<^verbatim>\<open>properties.js\<close>)\<close>

text \<open>
  The answer of \<^verbatim>\<open>properties:getProperties\<close>, and the loop of lines 114-136. The query
  is a function of the cursor (the other arguments are fixed); it answers or rejects. The
  loop may run forever, so it is a partial function: \<open>None\<close> is a loop that does not
  return.
\<close>

record 'p page_result =
  page :: "'p list"
  continueCursor :: "string option"
  isDone :: bool

partial_function (option) fetch_loop :: "(string option \<Rightarrow> js_error + 'p page_result) \<Rightarrow> 'p list \<Rightarrow> string option \<Rightarrow> nat \<Rightarrow> (js_error + 'p list \<times> nat) option" where
  "fetch_loop query allProperties cursor totalPages =
     (case query cursor of
        Inl e \<Rightarrow> Some (Inl e)
      | Inr result \<Rightarrow>
          if length (page result) = 0 then Some (Inr (allProperties, totalPages))
          else if isDone result then Some (Inr (allProperties @ page result, Suc totalPages))
          else fetch_loop query (allProperties @ page result) (continueCursor result) (Suc totalPages))"

definition fetch_all :: "(string option \<Rightarrow> js_error + 'p page_result) \<Rightarrow> (js_error + 'p list \<times> nat) option" where
  "fetch_all query = fetch_loop query [] None 0"

text \<open>
  The cursor of the \<open>i\<close>-th request of a loop that starts at \<open>cursor\<close>, and the page
  that request is answered with.
\<close>

fun cursor_at :: "(string option \<Rightarrow> js_error + 'p page_result) \<Rightarrow> string option \<Rightarrow> nat \<Rightarrow> string option" where
  "cursor_at query cursor 0 = cursor"
| "cursor_at query cursor (Suc i) =
     cursor_at query (case query cursor of Inl e \<Rightarrow> cursor | Inr result \<Rightarrow> continueCursor result) i"

definition page_at :: "(string option \<Rightarrow> js_error + 'p page_result) \<Rightarrow> string option \<Rightarrow> nat \<Rightarrow> 'p list" where
  "page_at query cursor i =
     (case query (cursor_at query cursor i) of Inl e \<Rightarrow> [] | Inr result \<Rightarrow> page result)"

definition done_at :: "(string option \<Rightarrow> js_error + 'p page_result) \<Rightarrow> string option \<Rightarrow> nat \<Rightarrow> bool" where
  "done_at query cursor i =
     (case query (cursor_at query cursor i) of Inl e \<Rightarrow> False | Inr result \<Rightarrow> isDone result)"

section \<open>Example data\<close>

definition example_user :: "string \<Rightarrow> string option \<Rightarrow> team_entry list option \<Rightarrow> js_date option \<Rightarrow> mongo_user" where
  "example_user oid mail teams active =
     \<lparr>old_id = oid, old_email = mail, old_profileImg = None, old_isOnBoarded = None,
      old_firstName = Some ''Ada'', old_lastName = Some ''Byron'', old_phone = None,
      old_team = teams, old_teamActive = None, old_lastActive = active\<rparr>"

definition approved_team :: "team_entry list" where
  "approved_team = [\<lparr>teamId = Some ''628bff8d44cd3e01b746b737'', status = Some ''Approved''\<rparr>]"

definition unmapped_team :: "team_entry list" where
  "unmapped_team = [\<lparr>teamId = Some ''5f0000000000000000000000'', status = Some ''Approved''\<rparr>]"

definition example_tag :: "string \<Rightarrow> string \<Rightarrow> string option \<Rightarrow> tag_data" where
  "example_tag oid label creator =
     \<lparr>tag_oid = oid, team = Some ''628bff8d44cd3e01b746b737'', tag = Some label,
      userId = creator\<rparr>"

definition example_ref :: "string \<Rightarrow> string \<Rightarrow> string \<Rightarrow> tag_ref" where
  "example_ref tagOid kind target =
     \<lparr>tagObject = Some tagOid, ref_type = Some kind, refWith = Some target\<rparr>"

definition example_memory :: memory where
  "example_memory =
     \<lparr>mem_tags = [], mem_properties = [(''p1'', ''r1''), (''p2'', ''r2'')], mem_links = []\<rparr>"

definition example_new_user :: "string \<Rightarrow> string \<Rightarrow> new_user" where
  "example_new_user oid seen =
     \<lparr>user_mongoId = oid, email = ''a@x.com'', emailVerified = True, image = None,
      isOnboardingComplete = False, name = ''Ada Byron'', firstName = Some ''Ada'',
      lastName = Some ''Byron'', phone = [],
      orgIds = [\<lparr>org_id = Str ''nd73x7djt7ez0zmyp49n6t0x3h6ztghc'',
                org_role = ''org:member'', org_status = ''active''\<rparr>],
      activeOrgId = Null,
      presence = \<lparr>lastSeen = seen, presence_status = ''offline''\<rparr>,
      providers = [[]]\<rparr>"

definition example_stored_user :: stored_user where
  "example_stored_user =
     \<lparr>doc_id = ''k'',
      doc = (example_new_user ''m0'' ''t0'')
              \<lparr>activeOrgId := Str ''nd73x7djt7ez0zmyp49n6t0x3h6ztghc''\<rparr>\<rparr>"

definition example_new_tag :: "string \<Rightarrow> string \<Rightarrow> new_tag" where
  "example_new_tag oid label =
     \<lparr>tag_orgId = Str ''nd73x7djt7ez0zmyp49n6t0x3h6ztghc'',
      tag_name = Some label,
      tag_recordType = ''properties'',
      tag_userIds = [(Str ''jx7fccjdbh0tkk4d8sm5gkk55572ckx7'', ''tag:admin'')],
      tag_mongoId = oid\<rparr>"

definition example_pages :: "string option \<Rightarrow> js_error + nat page_result" where
  "example_pages cursor =
     (if cursor = None then Inr \<lparr>page = [1, 2], continueCursor = Some ''c1'', isDone = False\<rparr>
      else if cursor = Some ''c1'' then Inr \<lparr>page = [3], continueCursor = Some ''c2'', isDone = True\<rparr>
      else Inr \<lparr>page = [], continueCursor = None, isDone = True\<rparr>)"

definition example_remaining :: "string option \<Rightarrow> nat" where
  "example_remaining cursor = (if cursor = None then 2 else if cursor = Some ''c1'' then 1 else 0)"

definition example_source :: "tag_data list \<times> tag_ref list" where
  "example_source =
     ([example_tag ''a1'' ''Hot Lead'' (Some ''628c069244cd3e01b746bb27''),
       example_tag ''a2'' ''Cold'' (Some ''628c069244cd3e01b746bb27'')],
      [example_ref ''a1'' ''property'' ''p1'', example_ref ''a2'' ''property'' ''p2'',
       example_ref ''a2'' ''property'' ''p1''])"


section \<open>Notions the results are stated with\<close>

text \<open>The tags of the \<^verbatim>\<open>tags:createTagFromMongo\<close> calls among a list of calls.\<close>

fun created_of :: "tag_call \<Rightarrow> new_tag list" where
  "created_of (CreateTag t) = [t]"
| "created_of (GetByMongoId m) = []"
| "created_of (GetTagsForRecord r answer) = []"
| "created_of (AddTagToRecord r t) = []"

definition creates :: "tag_call list \<Rightarrow> new_tag list" where
  "creates cs = concat (map created_of cs)"

text \<open>
  The classification as the specification words it: \<^verbatim>\<open>contacts\<close> for a reference set
  with contact-type and without property-type references, \<^verbatim>\<open>properties\<close> otherwise.
\<close>

definition spec_recordType :: "tag_ref list \<Rightarrow> string" where
  "spec_recordType references =
     (if hasContacts references \<and> \<not> hasProperties references then ''contacts''
      else ''properties'')"

text \<open>
  The calls, newest first: every \<^verbatim>\<open>tags:addTagToRecord\<close> was issued right after a
  \<^verbatim>\<open>tags:getTagsForRecord\<close> for the same record, whose answer did not hold the tag.
\<close>

fun guarded_rev :: "tag_call list \<Rightarrow> bool" where
  "guarded_rev [] = True"
| "guarded_rev (AddTagToRecord r t # GetTagsForRecord r' (Some answer) # cs) =
     (r' = r \<and> t \<notin> set answer \<and> guarded_rev cs)"
| "guarded_rev (AddTagToRecord r t # cs) = False"
| "guarded_rev (c # cs) = guarded_rev cs"

definition adds_guarded :: "tag_call list \<Rightarrow> bool" where
  "adds_guarded cs = guarded_rev (rev cs)"

text \<open>
  What the link claims take for granted about a backend, with \<open>link_count st r t\<close> the
  number of links between record \<open>r\<close> and tag \<open>t\<close> in state \<open>st\<close>: the answer of
  \<^verbatim>\<open>tags:getTagsForRecord\<close> holds every tag that has a link to the record; a
  \<^verbatim>\<open>tags:addTagToRecord\<close> adds at most one link, between its record and its tag;
  \<^verbatim>\<open>tags:createTagFromMongo\<close> adds no link.
\<close>

definition link_contract :: "'st tags_backend \<Rightarrow> ('st \<Rightarrow> string \<Rightarrow> string \<Rightarrow> nat) \<Rightarrow> bool" where
  "link_contract B link_count =
     ((\<forall>st r answer t. getTagsForRecord B st r = Inr answer \<and> 0 < link_count st r t
          \<longrightarrow> t \<in> set (map tag_doc_id answer))
    \<and> (\<forall>st r t st' r' t'. addTagToRecord B st r t = Inr st'
          \<longrightarrow> link_count st' r' t' \<le> link_count st r' t' + (if r' = r \<and> t' = t then 1 else 0))
    \<and> (\<forall>st created st' result r t. createTagFromMongo B st created = Inr (st', result)
          \<longrightarrow> link_count st' r t \<le> link_count st r t))"

text \<open>Runs of the tag migration, one after the other, each with its own collections.\<close>

fun run_all :: "'st tags_backend \<Rightarrow> (tag_data list \<times> tag_ref list) list \<Rightarrow> 'st \<Rightarrow> 'st" where
  "run_all B [] st = st"
| "run_all B ((tagdatas, tagrefs) # rest) st =
     run_all B rest (backend (fst (updateTags B tagdatas tagrefs st)))"

definition memory_link_count :: "memory \<Rightarrow> string \<Rightarrow> string \<Rightarrow> nat" where
  "memory_link_count st r t = count_list (mem_links st) (r, t)"

section \<open>Notions for running a migration twice\<close>



definition rewrite :: "new_user \<Rightarrow> stored_user \<Rightarrow> stored_user" where
  "rewrite newUser d = (if email (doc d) = email newUser then d\<lparr>doc := newUser\<rparr> else d)"

definition emails :: "stored_user list \<Rightarrow> string list" where
  "emails table = map (\<lambda>d. email (doc d)) table"




section \<open>Results\<close>

subsection \<open>Identifier mapping\<close>

lemma or_else_table:
  assumes "key \<notin> set object_prototype_keys"
  shows "or_else (object_get orgIdMap key) Null = Null
       \<or> registered_org (or_else (object_get orgIdMap key) Null)"
proof (cases "map_of orgIdMap key")
  case None
  with assms show ?thesis by (simp add: object_get_def or_else_def)
next
  case (Some v)
  then have "(key, v) \<in> set orgIdMap" by (rule map_of_SomeD)
  then have "registered_org (Str v)" unfolding registered_org_def by force
  with Some show ?thesis by (simp add: object_get_def or_else_def)
qed

text \<open>
  Claim C4, as the code has it. For an argument that is absent, empty, or a string other
  than the name of a member inherited from \<^verbatim>\<open>Object.prototype\<close>, \<^verbatim>\<open>mapOrgId\<close> of
  \<^verbatim>\<open>users.js\<close> returns \<^verbatim>\<open>null\<close> or a value registered in the table. \<^verbatim>\<open>mapOrgId\<close> of
  \<^verbatim>\<open>tags.js\<close> does the same for a non-empty such string, and returns the fixed
  identifier \<^verbatim>\<open>nd70p3ngxkh8n7chaddb81tjpx7166mr\<close> for an absent or empty argument.
  Both are total: no branch throws.
\<close>

theorem C4_mapOrgId_table_or_null:
  assumes "\<forall>key. oldId = Some key \<longrightarrow> key \<notin> set object_prototype_keys"
  shows "(mapOrgId_users oldId = Null \<or> registered_org (mapOrgId_users oldId))
       \<and> (if falsy_arg oldId
          then mapOrgId_tags oldId = Str ''nd70p3ngxkh8n7chaddb81tjpx7166mr''
          else mapOrgId_tags oldId = Null \<or> registered_org (mapOrgId_tags oldId))"
proof (cases "falsy_arg oldId")
  case True
  then show ?thesis by (cases oldId) (simp_all add: mapOrgId_users_def mapOrgId_tags_def)
next
  case False
  then obtain key where k: "oldId = Some key" by (cases oldId) auto
  with assms have "key \<notin> set object_prototype_keys" by simp
  from or_else_table [OF this] False k show ?thesis
    by (simp add: mapOrgId_users_def mapOrgId_tags_def)
qed

theorem C4_mapOrgId_table_or_null_witness:
  "registered_org (mapOrgId_users (Some ''628bff8d44cd3e01b746b737''))
   \<and> registered_org (mapOrgId_tags (Some ''628bff8d44cd3e01b746b737''))
   \<and> mapOrgId_users None = Null
   \<and> mapOrgId_tags None = Str ''nd70p3ngxkh8n7chaddb81tjpx7166mr''"
proof -
  have h: "\<forall>key. Some ''628bff8d44cd3e01b746b737'' = Some key
             \<longrightarrow> key \<notin> set object_prototype_keys"
    by (simp add: object_prototype_keys_def)
  have u: "mapOrgId_users (Some ''628bff8d44cd3e01b746b737'') \<noteq> Null"
    by (simp add: mapOrgId_users_def object_get_def or_else_def orgIdMap_def)
  have t: "mapOrgId_tags (Some ''628bff8d44cd3e01b746b737'') \<noteq> Null"
    by (simp add: mapOrgId_tags_def object_get_def or_else_def orgIdMap_def)
  have n: "\<forall>key. (None :: string option) = Some key \<longrightarrow> key \<notin> set object_prototype_keys"
    by simp
  from C4_mapOrgId_table_or_null [OF h] C4_mapOrgId_table_or_null [OF n] u t
  show ?thesis by (simp add: mapOrgId_users_def)
qed

text \<open>
  Claim C4 as stated fails: \<^verbatim>\<open>mapOrgId\<close> of \<^verbatim>\<open>tags.js\<close> answers an absent argument with
  an identifier that is neither \<^verbatim>\<open>null\<close> nor in the table, and \<^verbatim>\<open>mapOrgId\<close> of
  \<^verbatim>\<open>users.js\<close> answers \<^verbatim>\<open>constructor\<close> with the inherited member.
\<close>

theorem C4_mapOrgId_counterexample:
  "mapOrgId_tags None \<noteq> Null \<and> \<not> registered_org (mapOrgId_tags None)
   \<and> mapOrgId_users (Some ''constructor'') \<noteq> Null
   \<and> \<not> registered_org (mapOrgId_users (Some ''constructor''))"
  by (simp add: mapOrgId_tags_def mapOrgId_users_def registered_org_def orgIdMap_def
      object_get_def or_else_def object_prototype_keys_def image_iff)

subsection \<open>Facts about the user migration\<close>

lemma email_default_activeOrgId [simp]: "email (default_activeOrgId u) = email u"
  by (simp add: default_activeOrgId_def split: list.splits)

lemma orgIds_default_activeOrgId [simp]: "orgIds (default_activeOrgId u) = orgIds u"
  by (simp add: default_activeOrgId_def split: list.splits)

lemma lower_example: "toLowerCase ''A@x.com'' = ''a@x.com''"
  by (simp add: toLowerCase_def toLowerCase_char_def)

lemma lower_approved: "toLowerCase ''Approved'' = ''approved''"
  by (simp add: toLowerCase_def toLowerCase_char_def)

lemma memberships_approved:
  "memberships approved_team
     = Inr [\<lparr>org_id = Str ''nd73x7djt7ez0zmyp49n6t0x3h6ztghc'',
             org_role = ''org:member'', org_status = ''active''\<rparr>]"
  by (simp add: approved_team_def membership_def lower_approved mapOrgId_users_def
      object_get_def or_else_def orgIdMap_def)

lemma memberships_unmapped:
  "memberships unmapped_team
     = Inr [\<lparr>org_id = Null, org_role = ''org:member'', org_status = ''active''\<rparr>]"
  by (simp add: unmapped_team_def membership_def lower_approved mapOrgId_users_def
      object_get_def or_else_def orgIdMap_def object_prototype_keys_def)

lemma transform_example:
  "transform now (example_user oid (Some ''A@x.com'') (Some approved_team) None)
     = Inr (example_new_user oid now)"
  by (simp add: transform_def example_user_def memberships_approved lower_example
      example_new_user_def mapOrgId_users_def or_else_def)

lemma transform_unmapped:
  "transform now (example_user oid (Some ''A@x.com'') (Some unmapped_team) None)
     = Inr ((example_new_user oid now)\<lparr>orgIds := []\<rparr>)"
  by (simp add: transform_def example_user_def memberships_unmapped lower_example
      example_new_user_def mapOrgId_users_def or_else_def)

lemma transform_no_email:
  "transform now (example_user oid None teams active) = Inl TypeError"
  by (simp add: transform_def example_user_def)

lemma default_activeOrgId_example:
  "default_activeOrgId (example_new_user oid seen)
     = (example_new_user oid seen)\<lparr>activeOrgId := Str ''nd73x7djt7ez0zmyp49n6t0x3h6ztghc''\<rparr>"
  by (simp add: default_activeOrgId_def example_new_user_def)

lemma user_table_simps:
  "getUserByEmail user_table st e = Inr (find (\<lambda>d. email (doc d) = e) st)"
  "users_create user_table st newUser = Inr (st @ [\<lparr>doc_id = fresh_id (map doc_id st), doc = newUser\<rparr>])"
  "users_update user_table st i newUser = Inr (map (\<lambda>d. if doc_id d = i then d\<lparr>doc := newUser\<rparr> else d) st)"
  by (simp_all add: user_table_def)

lemma email_example [simp]: "email (example_new_user oid seen) = ''a@x.com''"
  by (simp add: example_new_user_def)

lemma orgIds_example [simp]: "orgIds (example_new_user oid seen) \<noteq> []"
  by (simp add: example_new_user_def)

lemma process_example_existing:
  "process_user user_table now (example_user ''m1'' (Some ''A@x.com'') (Some approved_team) None)
       (users_start [example_stored_user])
     = Inr \<lparr>store = [\<lparr>doc_id = ''k'', doc = default_activeOrgId (example_new_user ''m1'' now)\<rparr>],
            migratedCount = 0, errorCount = 1, skippedCount = 0,
            mutations = [Update ''k'' (default_activeOrgId (example_new_user ''m1'' now))]\<rparr>"
proof -
  have found: "getUserByEmail user_table [example_stored_user] ''a@x.com'' = Inr (Some example_stored_user)"
    by (simp add: user_table_simps example_stored_user_def)
  have updated: "users_update user_table [example_stored_user] ''k'' newUser
                   = Inr [\<lparr>doc_id = ''k'', doc = newUser\<rparr>]" for newUser
    by (simp add: user_table_simps example_stored_user_def)
  have k: "doc_id example_stored_user = ''k''" by (simp add: example_stored_user_def)
  show ?thesis
    by (simp add: process_user_def transform_example Let_def users_start_def found updated k
        update_try_def increment_updatedCount_def)
qed

lemma process_example_new:
  "process_user user_table now (example_user oid (Some ''A@x.com'') (Some approved_team) None)
       (users_start [])
     = Inr \<lparr>store = [\<lparr>doc_id = ''k'', doc = default_activeOrgId (example_new_user oid now)\<rparr>],
            migratedCount = 1, errorCount = 0, skippedCount = 0,
            mutations = [Create (default_activeOrgId (example_new_user oid now))]\<rparr>"
  by (simp add: process_user_def transform_example Let_def users_start_def user_table_simps fresh_id_def)

lemma transform_orgIds:
  "transform now oldUser = Inr transformed \<Longrightarrow> old_team oldUser = Some ts
     \<Longrightarrow> memberships ts = Inr ms
     \<Longrightarrow> orgIds transformed = filter (\<lambda>org. org_id org \<noteq> Null) ms"
  by (auto simp: transform_def split: option.splits sum.splits)

text \<open>
  Claim C7, as the code has it. A user whose transformation returns a record with an
  empty \<^verbatim>\<open>orgIds\<close> is skipped: the skip count goes up by one, the other counters, the
  backend and the list of mutation calls stay as they were. More generally, for a user
  whose team entries all resolve to no organization, the iteration of the loop either
  goes on to the next document with nothing but the skip count changed, or is left by
  an exception of the transformation with the state untouched: in neither case is a
  call issued for the user.
\<close>

theorem C7_empty_membership_never_created:
  "(transform now oldUser = Inr transformed \<and> orgIds transformed = []
      \<longrightarrow> (\<exists>s'. process_user B now oldUser s = Inr s'
             \<and> skippedCount s' = skippedCount s + 1
             \<and> migratedCount s' = migratedCount s
             \<and> errorCount s' = errorCount s
             \<and> mutations s' = mutations s
             \<and> store s' = store s))
   \<and> (old_team oldUser = Some ts \<and> memberships ts = Inr ms
        \<and> filter (\<lambda>org. org_id org \<noteq> Null) ms = []
      \<longrightarrow> (\<exists>e. transform (clock i) oldUser = Inl e
               \<and> migrate_loop B clock i (oldUser # rest) s = (s, Some e))
          \<or> migrate_loop B clock i (oldUser # rest) s
              = migrate_loop B clock (Suc i) rest (s\<lparr>skippedCount := skippedCount s + 1\<rparr>))"
proof (intro conjI impI)
  assume "transform now oldUser = Inr transformed \<and> orgIds transformed = []"
  then show "\<exists>s'. process_user B now oldUser s = Inr s'
             \<and> skippedCount s' = skippedCount s + 1
             \<and> migratedCount s' = migratedCount s
             \<and> errorCount s' = errorCount s
             \<and> mutations s' = mutations s
             \<and> store s' = store s"
    by (simp add: process_user_def)
next
  assume h: "old_team oldUser = Some ts \<and> memberships ts = Inr ms
        \<and> filter (\<lambda>org. org_id org \<noteq> Null) ms = []"
  show "(\<exists>e. transform (clock i) oldUser = Inl e
               \<and> migrate_loop B clock i (oldUser # rest) s = (s, Some e))
          \<or> migrate_loop B clock i (oldUser # rest) s
              = migrate_loop B clock (Suc i) rest (s\<lparr>skippedCount := skippedCount s + 1\<rparr>)"
  proof (cases "transform (clock i) oldUser")
    case (Inl e)
    then have "process_user B (clock i) oldUser s = Inl e" by (simp add: process_user_def)
    with Inl show ?thesis by simp
  next
    case (Inr transformed')
    with h have "orgIds transformed' = []" by (simp add: transform_orgIds)
    with Inr have "process_user B (clock i) oldUser s = Inr (s\<lparr>skippedCount := skippedCount s + 1\<rparr>)"
      by (simp add: process_user_def)
    then show ?thesis by simp
  qed
qed

theorem C7_empty_membership_never_created_witness:
  "(\<exists>s'. process_user user_table ''t0''
           (example_user ''m1'' (Some ''A@x.com'') (Some unmapped_team) None) (users_start []) = Inr s'
        \<and> skippedCount s' = 1 \<and> migratedCount s' = 0 \<and> mutations s' = [] \<and> store s' = [])
   \<and> migrate_loop user_table (\<lambda>i. ''t0'') 0
        [example_user ''m1'' (Some ''A@x.com'') (Some unmapped_team) None] (users_start [])
      = ((users_start [])\<lparr>skippedCount := 1\<rparr>, None)"
proof -
  let ?u = "example_user ''m1'' (Some ''A@x.com'') (Some unmapped_team) None"
  have t: "transform ''t0'' ?u = Inr ((example_new_user ''m1'' ''t0'')\<lparr>orgIds := []\<rparr>)"
    by (rule transform_unmapped)
  have e: "orgIds ((example_new_user ''m1'' ''t0'')\<lparr>orgIds := []\<rparr>) = []" by simp
  have r: "old_team ?u = Some unmapped_team" by (simp add: example_user_def)
  have f: "filter (\<lambda>org. org_id org \<noteq> Null)
             [\<lparr>org_id = Null, org_role = ''org:member'', org_status = ''active''\<rparr>] = []"
    by simp
  note inst = C7_empty_membership_never_created [where now = "''t0''" and oldUser = ?u
      and transformed = "(example_new_user ''m1'' ''t0'')\<lparr>orgIds := []\<rparr>"
      and B = user_table and s = "users_start []" and ts = unmapped_team
      and ms = "[\<lparr>org_id = Null, org_role = ''org:member'', org_status = ''active''\<rparr>]"
      and clock = "\<lambda>i. ''t0''" and i = 0 and rest = "[]"]
  have 1: "\<exists>s'. process_user user_table ''t0'' ?u (users_start []) = Inr s'
        \<and> skippedCount s' = 1 \<and> migratedCount s' = 0 \<and> mutations s' = [] \<and> store s' = []"
    using inst t e by (auto simp: users_start_def)
  have 2: "migrate_loop user_table (\<lambda>i. ''t0'') 0 [?u] (users_start [])
             = ((users_start [])\<lparr>skippedCount := 1\<rparr>, None)"
    using inst r memberships_unmapped f t by (auto simp: users_start_def)
  from 1 2 show ?thesis by blast
qed

text \<open>
  Claim C7 as stated fails. A user whose team entries all resolve to no organization
  and whose \<^verbatim>\<open>lastActive\<close> is an invalid date has an empty resolved membership list, but
  \<^verbatim>\<open>toISOString\<close> throws while the record is built (line 111): the run ends in the
  outer handler and the skip count is not incremented.
\<close>

theorem C7_empty_membership_counterexample:
  "memberships unmapped_team
     = Inr [\<lparr>org_id = Null, org_role = ''org:member'', org_status = ''active''\<rparr>]
   \<and> migrateUsers user_table (\<lambda>i. ''t0'')
        [example_user ''m1'' (Some ''A@x.com'') (Some unmapped_team) (Some InvalidDate)] []
      = (\<lparr>store = [], migratedCount = 0, errorCount = 0, skippedCount = 0, mutations = []\<rparr>,
         Some RangeError)"
proof -
  have "transform ''t0'' (example_user ''m1'' (Some ''A@x.com'') (Some unmapped_team) (Some InvalidDate))
          = Inl RangeError"
    by (simp add: transform_def example_user_def memberships_unmapped)
  then show ?thesis
    by (simp add: memberships_unmapped migrateUsers_def process_user_def users_start_def)
qed

text \<open>
  Claim C10. When the user is found by email and \<^verbatim>\<open>users:update\<close> succeeds, the
  \<^verbatim>\<open>try\<close> still ends in a ReferenceError (the increment of the undeclared
  \<^verbatim>\<open>updatedCount\<close>), the handler counts an error, and the summary, which holds the
  migrated, skipped and error counts only, shows the update as an error.
\<close>

theorem C10_successful_update_counted_as_error:
  assumes "transform now oldUser = Inr transformed"
    and "orgIds transformed \<noteq> []"
    and "getUserByEmail B (store s) (email transformed) = Inr (Some existingUser)"
    and "users_update B (store s) (doc_id existingUser) (default_activeOrgId transformed) = Inr st'"
  shows "update_try B (store s) existingUser (default_activeOrgId transformed) = (st', Some ReferenceError)
       \<and> (\<exists>s'. process_user B now oldUser s = Inr s'
              \<and> store s' = st'
              \<and> mutations s' = mutations s @ [Update (doc_id existingUser) (default_activeOrgId transformed)]
              \<and> errorCount s' = errorCount s + 1
              \<and> migratedCount s' = migratedCount s
              \<and> skippedCount s' = skippedCount s
              \<and> summary (s', None) = Some (migratedCount s, skippedCount s, errorCount s + 1))"
  using assms
  by (simp add: process_user_def update_try_def increment_updatedCount_def summary_def)

theorem C10_successful_update_counted_as_error_witness:
  "update_try user_table [example_stored_user] example_stored_user
       (default_activeOrgId (example_new_user ''m1'' ''t1''))
     = ([\<lparr>doc_id = ''k'', doc = default_activeOrgId (example_new_user ''m1'' ''t1'')\<rparr>],
        Some ReferenceError)
   \<and> (\<exists>s'. process_user user_table ''t1''
              (example_user ''m1'' (Some ''A@x.com'') (Some approved_team) None)
              (users_start [example_stored_user]) = Inr s'
          \<and> errorCount s' = 1 \<and> migratedCount s' = 0
          \<and> summary (s', None) = Some (0, 0, 1))"
proof -
  let ?s = "users_start [example_stored_user]"
  let ?new = "default_activeOrgId (example_new_user ''m1'' ''t1'')"
  have t: "transform ''t1'' (example_user ''m1'' (Some ''A@x.com'') (Some approved_team) None)
             = Inr (example_new_user ''m1'' ''t1'')"
    by (rule transform_example)
  have n: "orgIds (example_new_user ''m1'' ''t1'') \<noteq> []" by simp
  have f: "getUserByEmail user_table (store ?s) (email (example_new_user ''m1'' ''t1''))
             = Inr (Some example_stored_user)"
    by (simp add: user_table_simps users_start_def example_stored_user_def)
  have u: "users_update user_table (store ?s) (doc_id example_stored_user) ?new
             = Inr [\<lparr>doc_id = ''k'', doc = ?new\<rparr>]"
    by (simp add: user_table_simps users_start_def example_stored_user_def)
  from C10_successful_update_counted_as_error [OF t n f u]
  show ?thesis by (auto simp: users_start_def)
qed

subsection \<open>Facts about the tag migration\<close>

lemma creates_append [simp]: "creates (xs @ ys) = creates xs @ creates ys"
  by (simp add: creates_def)

lemma creates_simps [simp]:
  "creates [] = []"
  "creates (CreateTag t # cs) = t # creates cs"
  "creates (GetByMongoId m # cs) = creates cs"
  "creates (GetTagsForRecord r answer # cs) = creates cs"
  "creates (AddTagToRecord r k # cs) = creates cs"
  by (simp_all add: creates_def)

lemma link_ref_calls: "\<exists>new. calls (fst (link_ref B t r s)) = calls s @ new"
  by (simp add: link_ref_def Let_def split: option.splits sum.splits)

lemma link_refs_preserves:
  assumes step: "\<And>s r. P s \<Longrightarrow> P (fst (link_ref B t r s))"
  shows "P s \<Longrightarrow> P (fst (link_refs B t rs s))"
proof (induction rs arbitrary: s)
  case Nil
  then show ?case by simp
next
  case (Cons r rs)
  obtain s1 e1 where l: "link_ref B t r s = (s1, e1)" by (cases "link_ref B t r s")
  have p1: "P s1" using step [OF Cons.prems, of r] l by simp
  show ?case
  proof (cases e1)
    case None
    with l Cons.IH [OF p1] show ?thesis by simp
  next
    case (Some e)
    with l p1 show ?thesis by simp
  qed
qed

lemma link_created_preserves:
  assumes step: "\<And>s t r. P s \<Longrightarrow> P (fst (link_ref B t r s))"
  shows "P s \<Longrightarrow> P (fst (link_created B m cts s))"
proof (induction cts arbitrary: s)
  case Nil
  then show ?case by simp
next
  case (Cons ct cts)
  obtain k v where ct: "ct = (k, v)" by (cases ct)
  show ?case
  proof (cases "references_of m k")
    case (Inl e)
    with ct Cons.prems show ?thesis by simp
  next
    case (Inr refs)
    obtain s1 e1 where l: "link_refs B v refs s = (s1, e1)" by (cases "link_refs B v refs s")
    have p1: "P s1" using link_refs_preserves [of P B v, OF step Cons.prems, of refs] l by simp
    show ?thesis
    proof (cases e1)
      case None
      with ct Inr l Cons.IH [OF p1] show ?thesis by simp
    next
      case (Some e)
      with ct Inr l p1 show ?thesis by simp
    qed
  qed
qed

lemma newTagData_recordType:
  "newTagData orgId tagData mongoId = Inr t \<Longrightarrow> tag_recordType t = ''properties''"
  by (auto simp: newTagData_def split: option.splits)

lemma process_tag_preserves:
  assumes create: "\<And>s t k. P s \<Longrightarrow> tag_recordType t = ''properties'' \<Longrightarrow> P (create_try B t k s)"
    and step: "\<And>s t r. P s \<Longrightarrow> P (fst (link_ref B t r s))"
    and start: "P s"
  shows "P (process_tag B m ids names tagData s)"
proof -
  have "P (fst (link_created B m (createdTags (create_try B t k s)) (create_try B t k s)))"
    if "tag_recordType t = ''properties''" for t k
    using link_created_preserves [of P B, OF step create [OF start that]] .
  with start show ?thesis
    by (auto simp: process_tag_def Let_def split: option.splits sum.splits
        dest: newTagData_recordType)
qed

lemma tags_loop_preserves:
  assumes create: "\<And>s t k. P s \<Longrightarrow> tag_recordType t = ''properties'' \<Longrightarrow> P (create_try B t k s)"
    and step: "\<And>s t r. P s \<Longrightarrow> P (fst (link_ref B t r s))"
  shows "P s \<Longrightarrow> P (tags_loop B m ids names tagDatas s)"
proof (induction tagDatas arbitrary: s)
  case Nil
  then show ?case by simp
next
  case (Cons tagData rest)
  have "P (process_tag B m ids names tagData s)"
    using create step Cons.prems by (rule process_tag_preserves)
  then show ?case using Cons.IH by simp
qed

lemma updateTags_preserves:
  assumes create: "\<And>s t k. P s \<Longrightarrow> tag_recordType t = ''properties'' \<Longrightarrow> P (create_try B t k s)"
    and step: "\<And>s t r. P s \<Longrightarrow> P (fst (link_ref B t r s))"
    and start: "P (tags_start st)"
  shows "P (fst (updateTags B tagdatas tagrefs st))"
proof -
  have "P (tags_loop B m ids names tagDatas (tags_start st))" for m ids names tagDatas
    using create step start by (rule tags_loop_preserves)
  with start show ?thesis
    by (simp add: updateTags_def Let_def split: sum.splits bool.splits)
qed

lemma link_created_calls: "\<exists>new. calls (fst (link_created B m cts s)) = calls s @ new"
proof -
  define P where "P = (\<lambda>s'. \<exists>new. calls (s' :: 'a tags_run) = calls s @ new)"
  have "P (fst (link_ref B t r s'))" if "P s'" for s' t r
    using that link_ref_calls [of B t r s'] unfolding P_def by auto
  moreover have "P s" unfolding P_def by simp
  ultimately have "P (fst (link_created B m cts s))" by (rule link_created_preserves)
  then show ?thesis unfolding P_def .
qed

lemma create_try_calls: "calls (create_try B t k s) = calls s @ [CreateTag t]"
  by (simp add: create_try_def Let_def split: sum.splits prod.splits)

lemma process_tag_existing:
  "Some (tag_oid tagData) \<in> set ids \<or> tag tagData \<in> set names
     \<Longrightarrow> process_tag B m ids names tagData s = s"
  by (simp add: process_tag_def Let_def split: option.splits)

lemma process_tag_creates:
  assumes "team tagData = Some teamOid"
    and "Some (tag_oid tagData) \<notin> set ids" and "tag tagData \<notin> set names"
    and "references_of m (tag_oid tagData) = Inr refs"
    and "newTagData (mapOrgId_tags (Some teamOid)) tagData (tag_oid tagData) = Inr t"
  shows "\<exists>new. calls (process_tag B m ids names tagData s) = calls s @ CreateTag t # new"
proof -
  let ?s1 = "create_try B t (tag_oid tagData) s"
  obtain new where "calls (fst (link_created B m (createdTags ?s1) ?s1)) = calls ?s1 @ new"
    using link_created_calls by blast
  with assms show ?thesis by (simp add: process_tag_def Let_def create_try_calls)
qed

lemma process_tag_transform_failure:
  assumes "team tagData = None
         \<or> references_of m (tag_oid tagData) = Inl e
         \<or> (\<exists>teamOid. team tagData = Some teamOid
              \<and> newTagData (mapOrgId_tags (Some teamOid)) tagData (tag_oid tagData) = Inl e)"
  shows "process_tag B m ids names tagData s = s"
  using assms by (auto simp: process_tag_def Let_def split: option.splits sum.splits)

lemma memory_backend_simps:
  "viewer memory_backend st = Inr True"
  "tags_getAll memory_backend st
     = Inr (map (\<lambda>d. \<lparr>tag_doc_id = tag_doc_key d, tag_id_field = None,
                        tag_doc_name = tag_name (tag_doc_fields d)\<rparr>) (mem_tags st))"
  "createTagFromMongo memory_backend st t
     = Inr (st\<lparr>mem_tags := mem_tags st
                  @ [\<lparr>tag_doc_key = fresh_id (map tag_doc_key (mem_tags st)), tag_doc_fields = t\<rparr>]\<rparr>,
            \<lparr>result_status = ''success'', result_data = fresh_id (map tag_doc_key (mem_tags st))\<rparr>)"
  "getByMongoId memory_backend st m = Inr (map_of (mem_properties st) m)"
  "getTagsForRecord memory_backend st recordId
     = Inr (map (\<lambda>l. tag_view (mem_tags st) (snd l)) (filter (\<lambda>l. fst l = recordId) (mem_links st)))"
  "addTagToRecord memory_backend st recordId tagId
     = Inr (st\<lparr>mem_links := mem_links st @ [(recordId, tagId)]\<rparr>)"
  by (simp_all add: memory_backend_def Let_def)

lemma newTagData_example:
  "newTagData (mapOrgId_tags (Some ''628bff8d44cd3e01b746b737''))
       (example_tag oid label (Some ''628c069244cd3e01b746bb27'')) oid
     = Inr (example_new_tag oid label)"
  by (simp add: newTagData_def example_tag_def example_new_tag_def mapOrgId_tags_def mapUserId_def
      object_get_def or_else_def orgIdMap_def userIdMap_def)

lemma newTagData_no_userId:
  "newTagData orgId (example_tag oid label None) mongoId = Inl TypeError"
  by (simp add: newTagData_def example_tag_def)

subsection \<open>Claims about single records\<close>

text \<open>
  Claim C1, as the code has it. Every tag that the migration creates carries the record
  type \<^verbatim>\<open>properties\<close>: the object literal of line 182 holds the string, and the local
  \<^verbatim>\<open>recordType\<close> of lines 174-176 is not read. This holds for the tag built from any
  document, and for every create call of a run, whatever the collections and the backend.
\<close>

theorem C1_recordType_always_properties:
  "(newTagData orgId tagData mongoId = Inr t \<longrightarrow> tag_recordType t = ''properties'')
   \<and> list_all (\<lambda>t. tag_recordType t = ''properties'')
        (creates (calls (fst (updateTags B tagdatas tagrefs st))))"
proof
  show "newTagData orgId tagData mongoId = Inr t \<longrightarrow> tag_recordType t = ''properties''"
    by (auto dest: newTagData_recordType)
next
  let ?P = "\<lambda>s :: 'a tags_run. list_all (\<lambda>t. tag_recordType t = ''properties'') (creates (calls s))"
  have create: "?P (create_try B t k s)" if "?P s" "tag_recordType t = ''properties''" for s t k
    using that by (simp add: create_try_calls)
  have step: "?P (fst (link_ref B t r s))" if "?P s" for s t r
    using that by (simp add: link_ref_def Let_def split: option.splits sum.splits)
  have start: "?P (tags_start st)" by (simp add: tags_start_def)
  show "?P (fst (updateTags B tagdatas tagrefs st))"
    using create step start by (rule updateTags_preserves)
qed

theorem C1_recordType_always_properties_witness:
  "tag_recordType (example_new_tag ''a1'' ''Hot Lead'') = ''properties''
   \<and> map tag_recordType (creates (calls (fst (updateTags memory_backend
        [example_tag ''a1'' ''Hot Lead'' (Some ''628c069244cd3e01b746bb27'')]
        [example_ref ''a1'' ''property'' ''p1''] example_memory)))) = [''properties'']"
proof -
  let ?run = "updateTags memory_backend
        [example_tag ''a1'' ''Hot Lead'' (Some ''628c069244cd3e01b746bb27'')]
        [example_ref ''a1'' ''property'' ''p1''] example_memory"
  have len: "length (creates (calls (fst ?run))) = 1" by code_simp
  then obtain t where one: "creates (calls (fst ?run)) = [t]"
    by (cases "creates (calls (fst ?run))") auto
  from C1_recordType_always_properties [of "mapOrgId_tags (Some ''628bff8d44cd3e01b746b737'')"
      "example_tag ''a1'' ''Hot Lead'' (Some ''628c069244cd3e01b746bb27'')" "''a1''"
      "example_new_tag ''a1'' ''Hot Lead''" memory_backend
      "[example_tag ''a1'' ''Hot Lead'' (Some ''628c069244cd3e01b746bb27'')]"
      "[example_ref ''a1'' ''property'' ''p1'']" example_memory]
    newTagData_example [of "''a1''" "''Hot Lead''"] one
  show ?thesis by simp
qed

text \<open>
  Claim C1 as stated fails. A tag whose references are of contact type only is created
  with the record type \<^verbatim>\<open>properties\<close>, where the claim asks for \<^verbatim>\<open>contacts\<close>: in a run
  (whose \<^verbatim>\<open>refFilter\<close> drops the contact reference), and also in the loop body when it
  is given the contact reference itself.
\<close>

theorem C1_recordType_counterexample:
  "spec_recordType [example_ref ''a1'' ''contact'' ''p1''] = ''contacts''
   \<and> map tag_recordType (creates (calls (fst (updateTags memory_backend
        [example_tag ''a1'' ''Hot Lead'' (Some ''628c069244cd3e01b746bb27'')]
        [example_ref ''a1'' ''contact'' ''p1''] example_memory)))) = [''properties'']
   \<and> map tag_recordType (creates (calls (process_tag memory_backend
        [''a1'' \<mapsto> [example_ref ''a1'' ''contact'' ''p1'']] [] []
        (example_tag ''a1'' ''Hot Lead'' (Some ''628c069244cd3e01b746bb27''))
        (tags_start example_memory)))) = [''properties'']"
  by code_simp

text \<open>
  Claim C2, as the code has it. A transformed user with a membership is looked up by
  email alone: when \<^verbatim>\<open>users:getUserByEmail\<close> answers a user, one \<^verbatim>\<open>users:update\<close> is
  issued with that user's \<^verbatim>\<open>_id\<close> and the whole transformed record; when it answers
  \<^verbatim>\<open>null\<close>, one \<^verbatim>\<open>users:create\<close> is issued. For a tag there are three cases. A
  tag whose source identifier is among the \<^verbatim>\<open>id\<close> fields of the existing tags, or
  whose name is among their names, is skipped without any call. A tag that matches
  neither and whose record can be built (it has a \<^verbatim>\<open>team\<close> and a \<^verbatim>\<open>userId\<close>, and its
  reference lookup is an array) gets a \<^verbatim>\<open>tags:createTagFromMongo\<close> call first. A tag
  for which building the record throws gets no call at all.
\<close>

theorem C2_upsert_decision:
  "(transform now oldUser = Inr transformed \<and> orgIds transformed \<noteq> []
      \<and> getUserByEmail B (store s) (email transformed) = Inr (Some existingUser)
    \<longrightarrow> (\<exists>s'. process_user B now oldUser s = Inr s'
           \<and> mutations s' = mutations s @ [Update (doc_id existingUser) (default_activeOrgId transformed)]))
 \<and> (transform now oldUser = Inr transformed \<and> orgIds transformed \<noteq> []
      \<and> getUserByEmail B (store s) (email transformed) = Inr None
    \<longrightarrow> (\<exists>s'. process_user B now oldUser s = Inr s'
           \<and> mutations s' = mutations s @ [Create (default_activeOrgId transformed)]))
 \<and> (Some (tag_oid tagData) \<in> set existingTagIds \<or> tag tagData \<in> set existingTagNames
    \<longrightarrow> process_tag T tagRefMap existingTagIds existingTagNames tagData r = r)
 \<and> (team tagData = Some teamOid
      \<and> Some (tag_oid tagData) \<notin> set existingTagIds \<and> tag tagData \<notin> set existingTagNames
      \<and> references_of tagRefMap (tag_oid tagData) = Inr refs
      \<and> newTagData (mapOrgId_tags (Some teamOid)) tagData (tag_oid tagData) = Inr t
    \<longrightarrow> (\<exists>new. calls (process_tag T tagRefMap existingTagIds existingTagNames tagData r)
                 = calls r @ CreateTag t # new))
 \<and> (team tagData = None
      \<or> references_of tagRefMap (tag_oid tagData) = Inl e
      \<or> (\<exists>teamOid. team tagData = Some teamOid
           \<and> newTagData (mapOrgId_tags (Some teamOid)) tagData (tag_oid tagData) = Inl e)
    \<longrightarrow> process_tag T tagRefMap existingTagIds existingTagNames tagData r = r)"
proof (intro conjI impI)
  assume "transform now oldUser = Inr transformed \<and> orgIds transformed \<noteq> []
      \<and> getUserByEmail B (store s) (email transformed) = Inr (Some existingUser)"
  then show "\<exists>s'. process_user B now oldUser s = Inr s'
           \<and> mutations s' = mutations s @ [Update (doc_id existingUser) (default_activeOrgId transformed)]"
    by (auto simp: process_user_def Let_def split: prod.splits option.splits)
next
  assume "transform now oldUser = Inr transformed \<and> orgIds transformed \<noteq> []
      \<and> getUserByEmail B (store s) (email transformed) = Inr None"
  then show "\<exists>s'. process_user B now oldUser s = Inr s'
           \<and> mutations s' = mutations s @ [Create (default_activeOrgId transformed)]"
    by (auto simp: process_user_def Let_def split: sum.splits)
next
  assume "Some (tag_oid tagData) \<in> set existingTagIds \<or> tag tagData \<in> set existingTagNames"
  then show "process_tag T tagRefMap existingTagIds existingTagNames tagData r = r"
    by (rule process_tag_existing)
next
  assume "team tagData = Some teamOid
      \<and> Some (tag_oid tagData) \<notin> set existingTagIds \<and> tag tagData \<notin> set existingTagNames
      \<and> references_of tagRefMap (tag_oid tagData) = Inr refs
      \<and> newTagData (mapOrgId_tags (Some teamOid)) tagData (tag_oid tagData) = Inr t"
  then show "\<exists>new. calls (process_tag T tagRefMap existingTagIds existingTagNames tagData r)
                 = calls r @ CreateTag t # new"
    using process_tag_creates by blast
next
  assume "team tagData = None
      \<or> references_of tagRefMap (tag_oid tagData) = Inl e
      \<or> (\<exists>teamOid. team tagData = Some teamOid
           \<and> newTagData (mapOrgId_tags (Some teamOid)) tagData (tag_oid tagData) = Inl e)"
  then show "process_tag T tagRefMap existingTagIds existingTagNames tagData r = r"
    by (rule process_tag_transform_failure)
qed

theorem C2_upsert_decision_witness:
  "(\<exists>s'. process_user user_table ''t1''
        (example_user ''m1'' (Some ''A@x.com'') (Some approved_team) None)
        (users_start [example_stored_user]) = Inr s'
      \<and> mutations s' = [Update ''k'' (default_activeOrgId (example_new_user ''m1'' ''t1''))])
 \<and> (\<exists>s'. process_user user_table ''t1''
        (example_user ''m1'' (Some ''A@x.com'') (Some approved_team) None)
        (users_start []) = Inr s'
      \<and> mutations s' = [Create (default_activeOrgId (example_new_user ''m1'' ''t1''))])
 \<and> process_tag memory_backend Map.empty [] [Some ''Hot Lead'']
        (example_tag ''a1'' ''Hot Lead'' (Some ''628c069244cd3e01b746bb27''))
        (tags_start example_memory) = tags_start example_memory
 \<and> (\<exists>new. calls (process_tag memory_backend Map.empty [] []
        (example_tag ''a1'' ''Hot Lead'' (Some ''628c069244cd3e01b746bb27''))
        (tags_start example_memory)) = CreateTag (example_new_tag ''a1'' ''Hot Lead'') # new)
 \<and> process_tag memory_backend Map.empty [] [] (example_tag ''a0'' ''Broken'' None)
        (tags_start example_memory) = tags_start example_memory"
proof -
  let ?u = "example_user ''m1'' (Some ''A@x.com'') (Some approved_team) None"
  let ?t = "example_new_user ''m1'' ''t1''"
  let ?td = "example_tag ''a1'' ''Hot Lead'' (Some ''628c069244cd3e01b746bb27'')"
  have tr: "transform ''t1'' ?u = Inr ?t" by (rule transform_example)
  have ne: "orgIds ?t \<noteq> []" by simp
  have found: "getUserByEmail user_table (store (users_start [example_stored_user])) (email ?t)
                 = Inr (Some example_stored_user)"
    by (simp add: user_table_simps users_start_def example_stored_user_def)
  have absent: "getUserByEmail user_table (store (users_start [])) (email ?t) = Inr None"
    by (simp add: user_table_simps users_start_def)
  have built: "newTagData (mapOrgId_tags (Some ''628bff8d44cd3e01b746b737'')) ?td (tag_oid ?td)
                 = Inr (example_new_tag ''a1'' ''Hot Lead'')"
    using newTagData_example [of "''a1''" "''Hot Lead''"] by (simp add: example_tag_def)
  have refs: "references_of Map.empty (tag_oid ?td) = Inr []"
    by (simp add: references_of_def example_tag_def object_prototype_keys_def)
  have sel: "team ?td = Some ''628bff8d44cd3e01b746b737''" "tag ?td = Some ''Hot Lead''"
    by (simp_all add: example_tag_def)
  note upd = C2_upsert_decision [where now = "''t1''" and oldUser = ?u and transformed = ?t
      and B = user_table and s = "users_start [example_stored_user]"
      and existingUser = example_stored_user and tagData = ?td and existingTagIds = "[]"
      and existingTagNames = "[Some ''Hot Lead'']" and T = memory_backend
      and tagRefMap = Map.empty and r = "tags_start example_memory"
      and teamOid = "''628bff8d44cd3e01b746b737''" and refs = "[]"
      and t = "example_new_tag ''a1'' ''Hot Lead''" and e = TypeError]
  note cre = C2_upsert_decision [where now = "''t1''" and oldUser = ?u and transformed = ?t
      and B = user_table and s = "users_start []" and existingUser = example_stored_user
      and tagData = ?td and existingTagIds = "[]"
      and existingTagNames = "[]" and T = memory_backend
      and tagRefMap = Map.empty and r = "tags_start example_memory"
      and teamOid = "''628bff8d44cd3e01b746b737''" and refs = "[]"
      and t = "example_new_tag ''a1'' ''Hot Lead''" and e = TypeError]
  have 1: "\<exists>s'. process_user user_table ''t1'' ?u (users_start [example_stored_user]) = Inr s'
      \<and> mutations s' = [Update ''k'' (default_activeOrgId ?t)]"
    using upd tr ne found by (simp add: users_start_def example_stored_user_def)
  have 2: "\<exists>s'. process_user user_table ''t1'' ?u (users_start []) = Inr s'
      \<and> mutations s' = [Create (default_activeOrgId ?t)]"
    using cre tr ne absent by (simp add: users_start_def)
  have 3: "process_tag memory_backend Map.empty [] [Some ''Hot Lead''] ?td
        (tags_start example_memory) = tags_start example_memory"
    using upd sel by simp
  have 4: "\<exists>new. calls (process_tag memory_backend Map.empty [] [] ?td
        (tags_start example_memory)) = CreateTag (example_new_tag ''a1'' ''Hot Lead'') # new"
    using cre sel built refs by (simp add: tags_start_def)
  have 5: "process_tag memory_backend Map.empty [] [] (example_tag ''a0'' ''Broken'' None)
        (tags_start example_memory) = tags_start example_memory"
  proof -
    let ?bad = "example_tag ''a0'' ''Broken'' None"
    have "team ?bad = None
      \<or> references_of Map.empty (tag_oid ?bad) = Inl TypeError
      \<or> (\<exists>teamOid. team ?bad = Some teamOid
           \<and> newTagData (mapOrgId_tags (Some teamOid)) ?bad (tag_oid ?bad) = Inl TypeError)"
      by (simp add: example_tag_def newTagData_def)
    with C2_upsert_decision [where now = "''t1''" and oldUser = ?u and transformed = ?t
      and B = user_table and s = "users_start []" and existingUser = example_stored_user
      and tagData = ?bad and existingTagIds = "[]"
      and existingTagNames = "[]" and T = memory_backend
      and tagRefMap = Map.empty and r = "tags_start example_memory"
      and teamOid = "''628bff8d44cd3e01b746b737''" and refs = "[]"
      and t = "example_new_tag ''a1'' ''Hot Lead''" and e = TypeError]
    show ?thesis by blast
  qed
  from 1 2 3 4 5 show ?thesis by blast
qed

text \<open>
  Claim C2 as stated fails. A user found by email whose stored source identifier differs
  from the one of the source user is not skipped: \<^verbatim>\<open>users:update\<close> is issued and the
  stored record is overwritten. A tag matched by its identifier is not updated: it is
  skipped without a call.
\<close>

theorem C2_upsert_decision_counterexample:
  "user_mongoId (doc example_stored_user)
     \<noteq> old_id (example_user ''m1'' (Some ''A@x.com'') (Some approved_team) None)
 \<and> (\<exists>s'. process_user user_table ''t1''
        (example_user ''m1'' (Some ''A@x.com'') (Some approved_team) None)
        (users_start [example_stored_user]) = Inr s'
      \<and> mutations s' = [Update ''k'' (default_activeOrgId (example_new_user ''m1'' ''t1''))]
      \<and> skippedCount s' = 0
      \<and> store s' \<noteq> [example_stored_user])
 \<and> calls (process_tag memory_backend Map.empty [Some ''a1''] []
        (example_tag ''a1'' ''Hot Lead'' (Some ''628c069244cd3e01b746bb27''))
        (tags_start example_memory)) = []"
proof -
  have 1: "user_mongoId (doc example_stored_user)
     \<noteq> old_id (example_user ''m1'' (Some ''A@x.com'') (Some approved_team) None)"
    by (simp add: example_stored_user_def example_new_user_def example_user_def)
  have 2: "[\<lparr>doc_id = ''k'', doc = default_activeOrgId (example_new_user ''m1'' ''t1'')\<rparr>]
             \<noteq> [example_stored_user]"
    by (simp add: example_stored_user_def default_activeOrgId_def example_new_user_def)
  have 3: "calls (process_tag memory_backend Map.empty [Some ''a1''] []
        (example_tag ''a1'' ''Hot Lead'' (Some ''628c069244cd3e01b746bb27''))
        (tags_start example_memory)) = []"
    by (simp add: process_tag_existing example_tag_def tags_start_def)
  from 1 2 3 show ?thesis by (simp add: process_example_existing)
qed

text \<open>
  Claim C3, as the code has it, for the tag migration. A tag whose transformation throws
  (no \<^verbatim>\<open>team\<close>, no \<^verbatim>\<open>userId\<close>, or a reference lookup that is not an array) is caught
  by the \<^verbatim>\<open>try\<close> of the loop body: the state of the run is as before, no call is issued,
  and the loop goes on with the remaining tags. The run has no error count to increment.
\<close>

theorem C3_tag_transform_failure_isolated:
  assumes "team tagData = None
         \<or> references_of tagRefMap (tag_oid tagData) = Inl e
         \<or> (\<exists>teamOid. team tagData = Some teamOid
              \<and> newTagData (mapOrgId_tags (Some teamOid)) tagData (tag_oid tagData) = Inl e)"
  shows "process_tag B tagRefMap existingTagIds existingTagNames tagData s = s
       \<and> tags_loop B tagRefMap existingTagIds existingTagNames (tagData # rest) s
         = tags_loop B tagRefMap existingTagIds existingTagNames rest s"
  by (simp add: process_tag_transform_failure [OF assms])

theorem C3_tag_transform_failure_isolated_witness:
  "process_tag memory_backend Map.empty [] [] (example_tag ''a0'' ''Broken'' None)
       (tags_start example_memory) = tags_start example_memory
   \<and> creates (calls (tags_loop memory_backend Map.empty [] []
        [example_tag ''a0'' ''Broken'' None,
         example_tag ''a1'' ''Hot Lead'' (Some ''628c069244cd3e01b746bb27'')]
        (tags_start example_memory))) = [example_new_tag ''a1'' ''Hot Lead'']"
proof -
  let ?bad = "example_tag ''a0'' ''Broken'' None"
  have h: "team ?bad = None
         \<or> references_of Map.empty (tag_oid ?bad) = Inl TypeError
         \<or> (\<exists>teamOid. team ?bad = Some teamOid
              \<and> newTagData (mapOrgId_tags (Some teamOid)) ?bad (tag_oid ?bad) = Inl TypeError)"
    by (simp add: example_tag_def newTagData_def)
  have good: "creates (calls (tags_loop memory_backend Map.empty [] []
        [example_tag ''a1'' ''Hot Lead'' (Some ''628c069244cd3e01b746bb27'')]
        (tags_start example_memory))) = [example_new_tag ''a1'' ''Hot Lead'']"
    by code_simp
  from C3_tag_transform_failure_isolated [OF h, of memory_backend "[]" "[]" "tags_start example_memory"
      "[example_tag ''a1'' ''Hot Lead'' (Some ''628c069244cd3e01b746bb27'')]"] good
  show ?thesis by simp
qed

text \<open>
  Claim C3 as stated fails. In the user migration a user without \<^verbatim>\<open>email\<close> makes the
  transformation throw outside any \<^verbatim>\<open>try\<close> of the loop body: the run ends in the outer
  handler, no error is counted, no summary is printed and the next user, who is well
  formed, is never created. In the tag migration the failure is caught, and nothing is
  counted.
\<close>

theorem C3_transform_failure_counterexample:
  "migrateUsers user_table (\<lambda>i. ''t0'')
       [example_user ''m1'' None (Some approved_team) None,
        example_user ''m2'' (Some ''A@x.com'') (Some approved_team) None] []
     = (\<lparr>store = [], migratedCount = 0, errorCount = 0, skippedCount = 0, mutations = []\<rparr>,
        Some TypeError)
   \<and> summary (migrateUsers user_table (\<lambda>i. ''t0'')
       [example_user ''m1'' None (Some approved_team) None,
        example_user ''m2'' (Some ''A@x.com'') (Some approved_team) None] []) = None
   \<and> process_tag memory_backend Map.empty [] [] (example_tag ''a0'' ''Broken'' None)
       (tags_start example_memory) = tags_start example_memory"
  by (simp add: migrateUsers_def process_user_def transform_no_email users_start_def summary_def
      process_tag_def example_tag_def newTagData_def references_of_def object_prototype_keys_def)

text \<open>
  Claim C8 at a run over two tags with one reference each: the first tag is linked
  before the second tag is created, and the reference of the first tag is gone through
  twice (two \<^verbatim>\<open>properties:getByMongoId\<close> calls for \<^verbatim>\<open>p1\<close>).
\<close>

theorem C8_linking_inside_creation_loop:
  "calls (fst (updateTags memory_backend
       [example_tag ''a1'' ''Hot Lead'' (Some ''628c069244cd3e01b746bb27''),
        example_tag ''a2'' ''Cold'' (Some ''628c069244cd3e01b746bb27'')]
       [example_ref ''a1'' ''property'' ''p1'', example_ref ''a2'' ''property'' ''p2'']
       example_memory))
   = [CreateTag (example_new_tag ''a1'' ''Hot Lead''),
      GetByMongoId ''p1'', GetTagsForRecord ''r1'' (Some []), AddTagToRecord ''r1'' ''k'',
      CreateTag (example_new_tag ''a2'' ''Cold''),
      GetByMongoId ''p1'', GetTagsForRecord ''r1'' (Some [''k'']),
      GetByMongoId ''p2'', GetTagsForRecord ''r2'' (Some []), AddTagToRecord ''r2'' ''kk'']"
  by code_simp

subsection \<open>The paginated fetch\<close>

lemma fetch_loop_rejected:
  "query cursor = Inl e \<Longrightarrow> fetch_loop query allProperties cursor totalPages = Some (Inl e)"
  by (subst fetch_loop.simps) simp

lemma fetch_loop_empty:
  "query cursor = Inr result \<Longrightarrow> page result = []
     \<Longrightarrow> fetch_loop query allProperties cursor totalPages = Some (Inr (allProperties, totalPages))"
  by (subst fetch_loop.simps) simp

lemma fetch_loop_done:
  "query cursor = Inr result \<Longrightarrow> page result \<noteq> [] \<Longrightarrow> isDone result
     \<Longrightarrow> fetch_loop query allProperties cursor totalPages
         = Some (Inr (allProperties @ page result, Suc totalPages))"
  by (subst fetch_loop.simps) simp

lemma fetch_loop_more:
  "query cursor = Inr result \<Longrightarrow> page result \<noteq> [] \<Longrightarrow> \<not> isDone result
     \<Longrightarrow> fetch_loop query allProperties cursor totalPages
         = fetch_loop query (allProperties @ page result) (continueCursor result) (Suc totalPages)"
  by (subst fetch_loop.simps) simp

lemma page_at_0: "query cursor = Inr result \<Longrightarrow> page_at query cursor 0 = page result"
  by (simp add: page_at_def)

lemma done_at_0: "query cursor = Inr result \<Longrightarrow> done_at query cursor 0 = isDone result"
  by (simp add: done_at_def)

lemma page_at_Suc:
  "query cursor = Inr result \<Longrightarrow> page_at query cursor (Suc i) = page_at query (continueCursor result) i"
  by (simp add: page_at_def)

lemma done_at_Suc:
  "query cursor = Inr result \<Longrightarrow> done_at query cursor (Suc i) = done_at query (continueCursor result) i"
  by (simp add: done_at_def)

lemma fetch_loop_returns:
  assumes wf: "wf R"
    and answers: "\<forall>c. \<exists>r. query c = Inr r"
    and advances: "\<forall>c r. query c = Inr r \<and> page r \<noteq> [] \<and> \<not> isDone r \<longrightarrow> (continueCursor r, c) \<in> R"
  shows "\<exists>k. fetch_loop query allProperties cursor totalPages
               = Some (Inr (allProperties @ concat (map (page_at query cursor) [0..<k]), totalPages + k))
            \<and> (\<forall>i<k. page_at query cursor i \<noteq> [] \<and> (Suc i < k \<longrightarrow> \<not> done_at query cursor i))
            \<and> (page_at query cursor k = [] \<or> (0 < k \<and> done_at query cursor (k - 1)))"
  using wf
proof (induction cursor arbitrary: allProperties totalPages rule: wf_induct_rule)
  case (less cursor)
  obtain result where r: "query cursor = Inr result" using answers by blast
  show ?case
  proof (cases "page result = []")
    case True
    have "fetch_loop query allProperties cursor totalPages
            = Some (Inr (allProperties @ concat (map (page_at query cursor) [0..<0]), totalPages + 0))"
      using fetch_loop_empty [of query cursor result allProperties totalPages] r True by simp
    moreover have "page_at query cursor 0 = []" using r True by (simp add: page_at_0)
    ultimately show ?thesis by (intro exI [of _ 0]) simp
  next
    case False
    show ?thesis
    proof (cases "isDone result")
      case True
      have "fetch_loop query allProperties cursor totalPages
              = Some (Inr (allProperties @ concat (map (page_at query cursor) [0..<1]), totalPages + 1))"
        using fetch_loop_done [of query cursor result allProperties totalPages] r False True
        by (simp add: page_at_0)
      moreover have "page_at query cursor 0 \<noteq> []" using r False by (simp add: page_at_0)
      moreover have "done_at query cursor 0" using r True by (simp add: done_at_0)
      ultimately show ?thesis by (intro exI [of _ 1]) simp
    next
      case notDone: False
      let ?next = "continueCursor result"
      have "(?next, cursor) \<in> R" using advances r False notDone by blast
      from less.IH [OF this, of "allProperties @ page result" "Suc totalPages"]
      obtain k where k:
        "fetch_loop query (allProperties @ page result) ?next (Suc totalPages)
           = Some (Inr ((allProperties @ page result) @ concat (map (page_at query ?next) [0..<k]),
                        Suc totalPages + k))"
        "\<forall>i<k. page_at query ?next i \<noteq> [] \<and> (Suc i < k \<longrightarrow> \<not> done_at query ?next i)"
        "page_at query ?next k = [] \<or> (0 < k \<and> done_at query ?next (k - 1))"
        by blast
      have shift: "map (page_at query cursor) [0..<Suc k]
                     = page result # map (page_at query ?next) [0..<k]"
        using r by (simp add: map_upt_Suc page_at_0 page_at_Suc del: upt_Suc)
      have 1: "fetch_loop query allProperties cursor totalPages
                 = Some (Inr (allProperties @ concat (map (page_at query cursor) [0..<Suc k]),
                              totalPages + Suc k))"
        using fetch_loop_more [of query cursor result allProperties totalPages] r False notDone k(1) shift
        by simp
      have 2: "page_at query cursor i \<noteq> [] \<and> (Suc i < Suc k \<longrightarrow> \<not> done_at query cursor i)"
        if "i < Suc k" for i
      proof (cases i)
        case 0
        then show ?thesis using r False notDone by (simp add: page_at_0 done_at_0)
      next
        case (Suc j)
        with that k(2) r show ?thesis by (simp add: page_at_Suc done_at_Suc)
      qed
      have 3: "page_at query cursor (Suc k) = [] \<or> (0 < Suc k \<and> done_at query cursor (Suc k - 1))"
      proof (cases k)
        case 0
        with k(3) r show ?thesis by (simp add: page_at_Suc)
      next
        case (Suc j)
        with k(3) r show ?thesis by (auto simp: page_at_Suc done_at_Suc)
      qed
      from 1 2 3 show ?thesis by blast
    qed
  qed
qed

text \<open>
  Claim C9. Let every request be answered, and let every answer that holds a non-empty
  page and does not signal completion move the cursor down in a well-founded order (it
  advances). Then the loop returns. It has fetched \<open>k\<close> pages, none of them empty and
  none but possibly the last signalling completion; it stopped because the next page
  was empty or the last page signalled completion; and \<^verbatim>\<open>allProperties\<close> is the
  concatenation of those \<open>k\<close> pages, \<^verbatim>\<open>totalPages\<close> is \<open>k\<close>.
\<close>

theorem C9_fetch_all_terminates:
  assumes "wf R"
    and "\<forall>c. \<exists>r. query c = Inr r"
    and "\<forall>c r. query c = Inr r \<and> page r \<noteq> [] \<and> \<not> isDone r \<longrightarrow> (continueCursor r, c) \<in> R"
  shows "\<exists>k. fetch_all query = Some (Inr (concat (map (page_at query None) [0..<k]), k))
            \<and> (\<forall>i<k. page_at query None i \<noteq> [] \<and> (Suc i < k \<longrightarrow> \<not> done_at query None i))
            \<and> (page_at query None k = [] \<or> (0 < k \<and> done_at query None (k - 1)))"
  using fetch_loop_returns [OF assms, of "[]" None 0] by (simp add: fetch_all_def)

lemma fetch_all_example: "fetch_all example_pages = Some (Inr ([1, 2, 3], 2))"
proof -
  have 0: "example_pages None = Inr \<lparr>page = [1, 2], continueCursor = Some ''c1'', isDone = False\<rparr>"
    by (simp add: example_pages_def)
  have 1: "example_pages (Some ''c1'') = Inr \<lparr>page = [3], continueCursor = Some ''c2'', isDone = True\<rparr>"
    by (simp add: example_pages_def)
  have "fetch_loop example_pages [] None 0 = fetch_loop example_pages [1, 2] (Some ''c1'') 1"
    using fetch_loop_more [of example_pages None _ "[]" 0] 0 by simp
  also have "\<dots> = Some (Inr ([1, 2, 3], 2))"
    using fetch_loop_done [of example_pages "Some ''c1''" _ "[1, 2]" 1] 1 by simp
  finally show ?thesis by (simp add: fetch_all_def)
qed

theorem C9_fetch_all_terminates_witness:
  "fetch_all example_pages = Some (Inr ([1, 2, 3], 2))
   \<and> concat (map (page_at example_pages None) [0..<2]) = [1, 2, 3]"
proof -
  have wf: "wf (measure example_remaining)" by simp
  have answers: "\<forall>c. \<exists>r. example_pages c = Inr r" by (simp add: example_pages_def)
  have advances: "\<forall>c r. example_pages c = Inr r \<and> page r \<noteq> [] \<and> \<not> isDone r
                    \<longrightarrow> (continueCursor r, c) \<in> measure example_remaining"
    by (auto simp: example_pages_def example_remaining_def split: if_splits)
  from C9_fetch_all_terminates [OF wf answers advances] fetch_all_example
  show ?thesis by auto
qed

subsection \<open>Links\<close>

lemma create_try_guarded:
  "adds_guarded (calls s) \<Longrightarrow> adds_guarded (calls (create_try B t k s))"
  by (simp add: create_try_calls adds_guarded_def)

lemma link_ref_guarded:
  "adds_guarded (calls s) \<Longrightarrow> adds_guarded (calls (fst (link_ref B t r s)))"
  by (auto simp: link_ref_def Let_def adds_guarded_def list_ex_iff split: option.splits sum.splits)

lemma link_contract_query:
  assumes "link_contract B link_count"
    and "getTagsForRecord B st r = Inr answer" and "0 < link_count st r t"
  shows "t \<in> set (map tag_doc_id answer)"
proof -
  from assms(1)
  have "\<forall>st r answer t. getTagsForRecord B st r = Inr answer \<and> 0 < link_count st r t
          \<longrightarrow> t \<in> set (map tag_doc_id answer)"
    unfolding link_contract_def by (rule conjunct1)
  from this [rule_format, of st r answer t] assms(2,3) show ?thesis by simp
qed

lemma link_contract_add:
  assumes "link_contract B link_count"
    and "addTagToRecord B st r t = Inr st'"
  shows "link_count st' r' t' \<le> link_count st r' t' + (if r' = r \<and> t' = t then 1 else 0)"
proof -
  from assms(1)
  have "\<forall>st r t st' r' t'. addTagToRecord B st r t = Inr st'
          \<longrightarrow> link_count st' r' t' \<le> link_count st r' t' + (if r' = r \<and> t' = t then 1 else 0)"
    unfolding link_contract_def by (rule conjunct2 [THEN conjunct1])
  from this [rule_format, of st r t st' r' t'] assms(2) show ?thesis by simp
qed

lemma link_contract_create:
  assumes "link_contract B link_count"
    and "createTagFromMongo B st created = Inr (st', result)"
  shows "link_count st' r t \<le> link_count st r t"
proof -
  from assms(1)
  have "\<forall>st created st' result r t. createTagFromMongo B st created = Inr (st', result)
          \<longrightarrow> link_count st' r t \<le> link_count st r t"
    unfolding link_contract_def by (rule conjunct2 [THEN conjunct2])
  from this [rule_format, of st created st' result r t] assms(2) show ?thesis by simp
qed

lemma create_try_links:
  assumes "link_contract B link_count"
    and "\<forall>r t. link_count (backend s) r t \<le> 1"
  shows "\<forall>r t. link_count (backend (create_try B created k s)) r t \<le> 1"
proof (cases "createTagFromMongo B (backend s) created")
  case (Inl e)
  with assms(2) show ?thesis by (simp add: create_try_def Let_def)
next
  case (Inr answer)
  obtain st' result where a: "answer = (st', result)" by (cases answer)
  have "link_count st' r t \<le> link_count (backend s) r t" for r t
    using link_contract_create [OF assms(1)] Inr a by simp
  then have "link_count st' r t \<le> 1" for r t
    using assms(2) [rule_format, of r t] le_trans by blast
  with Inr a show ?thesis by (simp add: create_try_def Let_def)
qed

lemma link_ref_links:
  assumes contract: "link_contract B link_count"
    and inv: "\<forall>r t. link_count (backend s) r t \<le> 1"
  shows "\<forall>r t. link_count (backend (fst (link_ref B tagId ref s))) r t \<le> 1"
proof (cases "refWith ref")
  case None
  with inv show ?thesis by (simp add: link_ref_def)
next
  case (Some target)
  show ?thesis
  proof (cases "getByMongoId B (backend s) target")
    case (Inl e)
    with Some inv show ?thesis by (simp add: link_ref_def Let_def)
  next
    case (Inr found)
    show ?thesis
    proof (cases found)
      case None
      with Some Inr inv show ?thesis by (simp add: link_ref_def Let_def)
    next
      case found: (Some recordId)
      show ?thesis
      proof (cases "getTagsForRecord B (backend s) recordId")
        case (Inl e)
        with Some Inr found inv show ?thesis by (simp add: link_ref_def Let_def)
      next
        case answered: (Inr existingTags)
        show ?thesis
        proof (cases "list_ex (\<lambda>t. tag_doc_id t = tagId) existingTags")
          case True
          with Some Inr found answered inv show ?thesis by (simp add: link_ref_def Let_def)
        next
          case False
          then have absent: "tagId \<notin> set (map tag_doc_id existingTags)"
            by (auto simp: list_ex_iff)
          have zero: "link_count (backend s) recordId tagId = 0"
          proof (rule ccontr)
            assume "link_count (backend s) recordId tagId \<noteq> 0"
            then have "0 < link_count (backend s) recordId tagId" by simp
            with contract answered have "tagId \<in> set (map tag_doc_id existingTags)"
              by (rule link_contract_query)
            with absent show False by contradiction
          qed
          show ?thesis
          proof (cases "addTagToRecord B (backend s) recordId tagId")
            case (Inl e)
            with Some Inr found answered False inv show ?thesis
              by (simp add: link_ref_def Let_def)
          next
            case added: (Inr st')
            have bound: "link_count st' r t
                    \<le> link_count (backend s) r t + (if r = recordId \<and> t = tagId then 1 else 0)" for r t
              using contract added by (rule link_contract_add)
            have "link_count st' r t \<le> 1" for r t
            proof (cases "r = recordId \<and> t = tagId")
              case True
              with bound [of r t] zero show ?thesis by simp
            next
              case False
              with bound [of r t] have "link_count st' r t \<le> link_count (backend s) r t" by auto
              with inv [rule_format, of r t] show ?thesis by simp
            qed
            with Some Inr found answered False added show ?thesis
              by (simp add: link_ref_def Let_def)
          qed
        qed
      qed
    qed
  qed
qed

lemma updateTags_links:
  assumes contract: "link_contract B link_count"
    and inv: "\<forall>r t. link_count st r t \<le> 1"
  shows "\<forall>r t. link_count (backend (fst (updateTags B tagdatas tagrefs st))) r t \<le> 1"
proof -
  let ?P = "\<lambda>s :: 'a tags_run. \<forall>r t. link_count (backend s) r t \<le> 1"
  have create: "?P (create_try B t k s)" if "?P s" for s t k
    using contract that by (rule create_try_links)
  have step: "?P (fst (link_ref B t r s))" if "?P s" for s t r
    using contract that by (rule link_ref_links)
  have start: "?P (tags_start st)" using inv by (simp add: tags_start_def)
  show ?thesis using create step start by (rule updateTags_preserves)
qed

lemma updateTags_guarded: "adds_guarded (calls (fst (updateTags B tagdatas tagrefs st)))"
proof -
  let ?P = "\<lambda>s :: 'a tags_run. adds_guarded (calls s)"
  have create: "?P (create_try B t k s)" if "?P s" for s t k
    using that by (rule create_try_guarded)
  have step: "?P (fst (link_ref B t r s))" if "?P s" for s t r
    using that by (rule link_ref_guarded)
  have start: "?P (tags_start st)" by (simp add: tags_start_def adds_guarded_def)
  show ?thesis using create step start by (rule updateTags_preserves)
qed

lemma run_all_links:
  assumes contract: "link_contract B link_count"
  shows "\<forall>r t. link_count st r t \<le> 1 \<Longrightarrow> \<forall>r t. link_count (run_all B sources st) r t \<le> 1"
proof (induction sources arbitrary: st)
  case Nil
  then show ?case by simp
next
  case (Cons source rest)
  obtain tagdatas tagrefs where s: "source = (tagdatas, tagrefs)" by (cases source)
  have "\<forall>r t. link_count (backend (fst (updateTags B tagdatas tagrefs st))) r t \<le> 1"
    using contract Cons.prems by (rule updateTags_links)
  from Cons.IH [OF this] s show ?case by simp
qed

lemma memory_link_contract: "link_contract memory_backend memory_link_count"
  unfolding link_contract_def
proof (intro conjI allI impI)
  fix st r answer t
  assume h: "getTagsForRecord memory_backend st r = Inr answer \<and> 0 < memory_link_count st r t"
  then have a: "answer = map (\<lambda>l. tag_view (mem_tags st) (snd l)) (filter (\<lambda>l. fst l = r) (mem_links st))"
    by (simp add: memory_backend_simps)
  from h have "count_list (mem_links st) (r, t) \<noteq> 0" by (simp add: memory_link_count_def)
  then have "(r, t) \<in> set (mem_links st)" by (simp add: count_list_0_iff)
  then have "(r, t) \<in> set (filter (\<lambda>l. fst l = r) (mem_links st))" by simp
  then have "tag_doc_id (tag_view (mem_tags st) (snd (r, t)))
               \<in> (\<lambda>l. tag_doc_id (tag_view (mem_tags st) (snd l))) ` set (filter (\<lambda>l. fst l = r) (mem_links st))"
    by (rule imageI)
  then show "t \<in> set (map tag_doc_id answer)"
    by (simp add: a tag_view_def comp_def)
next
  fix st r t st' r' t'
  assume "addTagToRecord memory_backend st r t = Inr st'"
  then have "st' = st\<lparr>mem_links := mem_links st @ [(r, t)]\<rparr>"
    by (simp add: memory_backend_simps)
  then show "memory_link_count st' r' t'
               \<le> memory_link_count st r' t' + (if r' = r \<and> t' = t then 1 else 0)"
    by (simp add: memory_link_count_def)
next
  fix st created st' result r t
  assume "createTagFromMongo memory_backend st created = Inr (st', result)"
  then have "mem_links st' = mem_links st"
    by (auto simp: memory_backend_simps)
  then show "memory_link_count st' r t \<le> memory_link_count st r t"
    by (simp add: memory_link_count_def)
qed

text \<open>
  Claim C5. In every run, each \<^verbatim>\<open>tags:addTagToRecord\<close> call follows directly a
  \<^verbatim>\<open>tags:getTagsForRecord\<close> for the same record whose answer did not hold the tag.
  Consequently, on a backend whose query reports every linked tag and whose mutation
  adds one link, a state in which no record is linked twice to a tag stays so through
  any number of runs, whatever their collections.
\<close>

theorem C5_no_duplicate_links:
  assumes "link_contract B link_count"
    and "\<forall>r t. link_count st r t \<le> 1"
  shows "adds_guarded (calls (fst (updateTags B tagdatas tagrefs st)))
       \<and> (\<forall>r t. link_count (run_all B sources st) r t \<le> 1)"
proof
  show "adds_guarded (calls (fst (updateTags B tagdatas tagrefs st)))"
    by (rule updateTags_guarded)
  show "\<forall>r t. link_count (run_all B sources st) r t \<le> 1"
    using assms by (rule run_all_links)
qed

theorem C5_no_duplicate_links_witness:
  "adds_guarded (calls (fst (updateTags memory_backend (fst example_source) (snd example_source)
       example_memory)))
   \<and> (\<forall>r t. count_list (mem_links (run_all memory_backend [example_source, example_source]
           example_memory)) (r, t) \<le> 1)
   \<and> mem_links (run_all memory_backend [example_source, example_source] example_memory)
       = [(''r1'', ''k''), (''r2'', ''kk''), (''r1'', ''kk'')]
   \<and> mem_links (run_all memory_backend [example_source] example_memory)
       = [(''r1'', ''k''), (''r2'', ''kk''), (''r1'', ''kk'')]"
proof -
  have start: "\<forall>r t. memory_link_count example_memory r t \<le> 1"
    by (simp add: memory_link_count_def example_memory_def)
  have twice: "mem_links (run_all memory_backend [example_source, example_source] example_memory)
       = [(''r1'', ''k''), (''r2'', ''kk''), (''r1'', ''kk'')]"
    by code_simp
  have once: "mem_links (run_all memory_backend [example_source] example_memory)
       = [(''r1'', ''k''), (''r2'', ''kk''), (''r1'', ''kk'')]"
    by code_simp
  from C5_no_duplicate_links [OF memory_link_contract start,
      of "fst example_source" "snd example_source" "[example_source, example_source]"]
    twice once
  show ?thesis by (simp add: memory_link_count_def)
qed

subsection \<open>Running the user migration twice\<close>









lemma doc_id_rewrite [simp]: "doc_id (rewrite n d) = doc_id d"
  by (simp add: rewrite_def)

lemma doc_id_comp_rewrite [simp]: "doc_id \<circ> rewrite n = doc_id"
  by (simp add: fun_eq_iff)

lemma emails_rewrite [simp]: "emails (map (rewrite n) table) = emails table"
  by (induction table) (simp_all add: emails_def rewrite_def)

lemma ids_rewrite [simp]: "map doc_id (map (rewrite n) table) = map doc_id table"
  by (induction table) (simp_all add: rewrite_def)






lemma email_rewrite [simp]: "email (doc (rewrite n d)) = email (doc d)"
  by (simp add: rewrite_def)






subsection \<open>Running the tag migration twice\<close>












subsection \<open>Running a migration twice: the claim\<close>




end
